theory Spec2Isabelle
  imports Main "HOL-Library.AList" "HOL-Library.Sublist" "HOL-Library.Char_ord"
    "HOL-Library.List_Lexorder" "HOL-Library.Product_Lexorder"
begin

section \<open>TrustByDesign: risk registry, policy checker, uncertainty tags, report builder\<close>

text \<open>
  A shallow embedding of \<^verbatim>\<open>lib/risk_registry.py\<close>, \<^verbatim>\<open>lib/policy_checker.py\<close>,
  \<^verbatim>\<open>lib/uncertainty_tags.py\<close> and \<^verbatim>\<open>lib/report_builder.py\<close>.

  Conventions.
  \<^item> A Python object with fields is a record whose fields have the annotated types of the
    class; an \<^verbatim>\<open>Enum\<close> is a datatype with one constructor per member.
  \<^item> A Python \<^verbatim>\<open>dict\<close> is an association list in insertion order, read with
    \<^const>\<open>map_of\<close> and written with \<^const>\<open>AList.update\<close> (which overwrites in place
    and appends a new key at the end, as a Python dict does).
  \<^item> A method that mutates \<^verbatim>\<open>self\<close> takes the object and returns the object after
    the call together with the outcome; the outcome is \<open>Inl e\<close> when the Python raises.
    The returned object is the state at the moment of the raise.
  \<^item> Untyped data (a loaded document, \<^verbatim>\<open>**kwargs\<close>) is a value of \<open>json\<close> or
    \<open>pyval\<close>. Floating-point numbers are not part of this value universe.
\<close>

subsection \<open>Values and errors\<close>

datatype json =
    JNull
  | JBool bool
  | JInt int
  | JStr string
  | JList "json list"
  | JObj "(string \<times> json) list"

text \<open>
  The exceptions of the modelled code. The Python class of each is given on the right;
  the two \<^verbatim>\<open>ValueError\<close>s and the two \<^verbatim>\<open>KeyError\<close>s are told apart by what
  raises them.
\<close>

datatype error =
    DuplicateId string          \<comment> \<open>\<^verbatim>\<open>ValueError("Risk with ID '...' already exists")\<close>\<close>
  | NotFound string             \<comment> \<open>\<^verbatim>\<open>KeyError("Risk with ID '...' not found")\<close>\<close>
  | InvalidEnum string json     \<comment> \<open>\<^verbatim>\<open>ValueError("... is not a valid <Enum>")\<close>, enum name and value\<close>
  | MissingKey string           \<comment> \<open>\<^verbatim>\<open>KeyError\<close> of \<^verbatim>\<open>data['key']\<close>\<close>
  | TypeError                   \<comment> \<open>\<^verbatim>\<open>TypeError\<close>: subscript, iteration, \<^verbatim>\<open>in\<close> or call on a value without it,
                                    an argument passed twice, a refused assignment\<close>
  | AttributeError              \<comment> \<open>\<^verbatim>\<open>AttributeError\<close>: \<^verbatim>\<open>.get\<close> on a value that is not a dict, assignment
                                    to an attribute that is not writable\<close>
  | Unmodelled                  \<comment> \<open>no exception: the call leaves the typed model (see below)\<close>

text \<open>Python truthiness (\<^verbatim>\<open>if x\<close>, \<^verbatim>\<open>not x\<close>, \<^verbatim>\<open>x or y\<close>).\<close>

fun truthy :: "json \<Rightarrow> bool" where
  "truthy JNull = False"
| "truthy (JBool b) = b"
| "truthy (JInt n) = (n \<noteq> 0)"
| "truthy (JStr s) = (s \<noteq> [])"
| "truthy (JList xs) = (xs \<noteq> [])"
| "truthy (JObj kvs) = (kvs \<noteq> [])"

subsection \<open>The risk entity model\<close>

datatype RiskCategory =
    HALLUCINATION | PRIVACY | BIAS | AUTONOMY_OVERREACH | MISUSE
  | DATA_QUALITY | SECURITY | PERFORMANCE | COMPLIANCE | OTHER

datatype Severity = CRITICAL | HIGH | MEDIUM | LOW

datatype Likelihood = VERY_HIGH | HIGH | MEDIUM | LOW | VERY_LOW

datatype RiskStatus = IDENTIFIED | ANALYZING | MITIGATING | MONITORING | CLOSED | ACCEPTED

text \<open>The \<^verbatim>\<open>.value\<close> of each member.\<close>

fun RiskCategory_value :: "RiskCategory \<Rightarrow> string" where
  "RiskCategory_value HALLUCINATION = ''hallucination''"
| "RiskCategory_value PRIVACY = ''privacy''"
| "RiskCategory_value BIAS = ''bias''"
| "RiskCategory_value AUTONOMY_OVERREACH = ''autonomy_overreach''"
| "RiskCategory_value MISUSE = ''misuse''"
| "RiskCategory_value DATA_QUALITY = ''data_quality''"
| "RiskCategory_value SECURITY = ''security''"
| "RiskCategory_value PERFORMANCE = ''performance''"
| "RiskCategory_value COMPLIANCE = ''compliance''"
| "RiskCategory_value OTHER = ''other''"

fun Severity_value :: "Severity \<Rightarrow> string" where
  "Severity_value CRITICAL = ''critical''"
| "Severity_value Severity.HIGH = ''high''"
| "Severity_value Severity.MEDIUM = ''medium''"
| "Severity_value Severity.LOW = ''low''"

fun Likelihood_value :: "Likelihood \<Rightarrow> string" where
  "Likelihood_value VERY_HIGH = ''very_high''"
| "Likelihood_value Likelihood.HIGH = ''high''"
| "Likelihood_value Likelihood.MEDIUM = ''medium''"
| "Likelihood_value Likelihood.LOW = ''low''"
| "Likelihood_value VERY_LOW = ''very_low''"

fun RiskStatus_value :: "RiskStatus \<Rightarrow> string" where
  "RiskStatus_value IDENTIFIED = ''identified''"
| "RiskStatus_value ANALYZING = ''analyzing''"
| "RiskStatus_value MITIGATING = ''mitigating''"
| "RiskStatus_value MONITORING = ''monitoring''"
| "RiskStatus_value CLOSED = ''closed''"
| "RiskStatus_value ACCEPTED = ''accepted''"

text \<open>The members of each enumeration, in definition order.\<close>

definition RiskCategory_members :: "RiskCategory list" where
  "RiskCategory_members = [HALLUCINATION, PRIVACY, BIAS, AUTONOMY_OVERREACH, MISUSE,
     DATA_QUALITY, SECURITY, PERFORMANCE, COMPLIANCE, OTHER]"

definition Severity_members :: "Severity list" where
  "Severity_members = [CRITICAL, Severity.HIGH, Severity.MEDIUM, Severity.LOW]"

definition Likelihood_members :: "Likelihood list" where
  "Likelihood_members = [VERY_HIGH, Likelihood.HIGH, Likelihood.MEDIUM, Likelihood.LOW, VERY_LOW]"

definition RiskStatus_members :: "RiskStatus list" where
  "RiskStatus_members = [IDENTIFIED, ANALYZING, MITIGATING, MONITORING, CLOSED, ACCEPTED]"

text \<open>
  Calling an enumeration class on a value, \<^verbatim>\<open>Severity(x)\<close>: the member whose value equals
  \<^verbatim>\<open>x\<close>, or \<^verbatim>\<open>ValueError\<close>. A value that is not a string equals no member's value.
\<close>

definition enum_call :: "string \<Rightarrow> 'a list \<Rightarrow> ('a \<Rightarrow> string) \<Rightarrow> json \<Rightarrow> error + 'a" where
  "enum_call name members val x =
     (case find (\<lambda>m. JStr (val m) = x) members of
        Some m \<Rightarrow> Inr m
      | None \<Rightarrow> Inl (InvalidEnum name x))"

definition RiskCategory_call :: "json \<Rightarrow> error + RiskCategory" where
  "RiskCategory_call = enum_call ''RiskCategory'' RiskCategory_members RiskCategory_value"

definition Severity_call :: "json \<Rightarrow> error + Severity" where
  "Severity_call = enum_call ''Severity'' Severity_members Severity_value"

definition Likelihood_call :: "json \<Rightarrow> error + Likelihood" where
  "Likelihood_call = enum_call ''Likelihood'' Likelihood_members Likelihood_value"

definition RiskStatus_call :: "json \<Rightarrow> error + RiskStatus" where
  "RiskStatus_call = enum_call ''RiskStatus'' RiskStatus_members RiskStatus_value"

text \<open>
  The dataclass \<^verbatim>\<open>Risk\<close>. The field \<^verbatim>\<open>id\<close> is written \<open>id'\<close>. The metadata bag holds
  document values.
\<close>

record Risk =
  id' :: string
  category :: RiskCategory
  title :: string
  description :: string
  severity :: Severity
  likelihood :: Likelihood
  mitigations :: "string list"
  owner :: string
  status :: RiskStatus
  metadata :: "(string \<times> json) list"

subsection \<open>The registry\<close>

record RiskRegistry =
  risks :: "(string \<times> Risk) list"

definition RiskRegistry_init :: RiskRegistry where
  "RiskRegistry_init = \<lparr>risks = []\<rparr>"

text \<open>\<^verbatim>\<open>id in self.risks\<close>.\<close>

definition has_risk :: "RiskRegistry \<Rightarrow> string \<Rightarrow> bool" where
  "has_risk reg i = (i \<in> fst ` set (risks reg))"

text \<open>\<^verbatim>\<open>get_risk\<close>: \<^verbatim>\<open>self.risks.get(id)\<close>.\<close>

definition get_risk :: "RiskRegistry \<Rightarrow> string \<Rightarrow> Risk option" where
  "get_risk reg i = map_of (risks reg) i"

text \<open>
  \<^verbatim>\<open>add_risk\<close>. The optional arguments \<^verbatim>\<open>mitigations\<close> and \<^verbatim>\<open>metadata\<close> default to
  \<^verbatim>\<open>None\<close> and are replaced by an empty list or dict when falsy (\<^verbatim>\<open>mitigations or []\<close>);
  \<^verbatim>\<open>owner\<close> defaults to \<^verbatim>\<open>""\<close> and \<^verbatim>\<open>status\<close> to \<^verbatim>\<open>IDENTIFIED\<close> at the call site.
\<close>

definition or_empty :: "'a list option \<Rightarrow> 'a list" where
  "or_empty x = (case x of None \<Rightarrow> [] | Some xs \<Rightarrow> xs)"

definition add_risk ::
  "RiskRegistry \<Rightarrow> string \<Rightarrow> RiskCategory \<Rightarrow> string \<Rightarrow> string \<Rightarrow> Severity \<Rightarrow> Likelihood \<Rightarrow>
   string list option \<Rightarrow> string \<Rightarrow> RiskStatus \<Rightarrow> (string \<times> json) list option \<Rightarrow>
   RiskRegistry \<times> (error + Risk)" where
  "add_risk reg i cat ttl descr sev lik mits own st meta =
     (if has_risk reg i then (reg, Inl (DuplicateId i))
      else
        let risk = \<lparr>id' = i, category = cat, title = ttl, description = descr,
                    severity = sev, likelihood = lik, mitigations = or_empty mits,
                    owner = own, status = st, metadata = or_empty meta\<rparr>
        in (reg\<lparr>risks := AList.update i risk (risks reg)\<rparr>, Inr risk))"


subsection \<open>Updating a risk\<close>

text \<open>
  The values a keyword argument of \<^verbatim>\<open>update_risk\<close> can carry: a document value (a
  string, a list, a dict, ...) or a member of one of the four enumerations.
\<close>

datatype pyval =
    PJson json
  | PCategory RiskCategory
  | PSeverity Severity
  | PLikelihood Likelihood
  | PStatus RiskStatus

definition Risk_fields :: "string list" where
  "Risk_fields = [''id'', ''category'', ''title'', ''description'', ''severity'',
     ''likelihood'', ''mitigations'', ''owner'', ''status'', ''metadata'']"

definition Risk_methods :: "string list" where
  "Risk_methods = [''to_dict'', ''from_dict'']"

text \<open>
  The names that a \<^verbatim>\<open>Risk\<close> instance has besides its fields and its two methods: what it
  inherits from \<^verbatim>\<open>object\<close> and what the \<^verbatim>\<open>dataclass\<close> decorator adds to the class
  (CPython 3.11, the order of \<^verbatim>\<open>dir\<close>).
\<close>

definition object_attrs :: "string list" where
  "object_attrs = [''__annotations__'', ''__class__'', ''__dataclass_fields__'',
     ''__dataclass_params__'', ''__delattr__'', ''__dict__'', ''__dir__'', ''__doc__'',
     ''__eq__'', ''__format__'', ''__ge__'', ''__getattribute__'', ''__getstate__'',
     ''__gt__'', ''__hash__'', ''__init__'', ''__init_subclass__'', ''__le__'', ''__lt__'',
     ''__match_args__'', ''__module__'', ''__ne__'', ''__new__'', ''__reduce__'',
     ''__reduce_ex__'', ''__repr__'', ''__setattr__'', ''__sizeof__'', ''__str__'',
     ''__subclasshook__'', ''__weakref__'']"

text \<open>
  \<^verbatim>\<open>hasattr(risk, key)\<close>: true for the ten fields, the two methods and the inherited
  names, false for every other name (\<^verbatim>\<open>colour\<close>, \<^verbatim>\<open>__nope\<close>, ...). The loop stores only
  under names for which it is true, so it stays the same during the loop.
\<close>

definition hasattr_Risk :: "string \<Rightarrow> bool" where
  "hasattr_Risk key =
     (key \<in> set Risk_fields \<or> key \<in> set Risk_methods \<or> key \<in> set object_attrs)"

text \<open>
  The conversion chain of the loop body: a \<^verbatim>\<open>str\<close> given for one of the four
  enumeration fields is passed to the enumeration class; every other value is kept.
\<close>

definition coerce :: "string \<Rightarrow> pyval \<Rightarrow> error + pyval" where
  "coerce key v =
     (case v of
        PJson (JStr s) \<Rightarrow>
          if key = ''category'' then map_sum (\<lambda>e. e) PCategory (RiskCategory_call (JStr s))
          else if key = ''severity'' then map_sum (\<lambda>e. e) PSeverity (Severity_call (JStr s))
          else if key = ''likelihood'' then map_sum (\<lambda>e. e) PLikelihood (Likelihood_call (JStr s))
          else if key = ''status'' then map_sum (\<lambda>e. e) PStatus (RiskStatus_call (JStr s))
          else Inr v
      | _ \<Rightarrow> Inr v)"

fun as_str_list :: "json list \<Rightarrow> string list option" where
  "as_str_list [] = Some []"
| "as_str_list (JStr s # xs) = map_option ((#) s) (as_str_list xs)"
| "as_str_list (_ # xs) = None"

text \<open>
  \<^verbatim>\<open>setattr(risk, key, value)\<close> for one of the ten fields. Python stores any value; the
  record holds each field at its annotated type, so a value of another type ends in
  \<^const>\<open>Unmodelled\<close>.
\<close>

definition setattr_field :: "Risk \<Rightarrow> string \<Rightarrow> pyval \<Rightarrow> error + Risk" where
  "setattr_field r key v =
     (if key = ''id'' then
        (case v of PJson (JStr s) \<Rightarrow> Inr (r\<lparr>id' := s\<rparr>) | _ \<Rightarrow> Inl Unmodelled)
      else if key = ''category'' then
        (case v of PCategory c \<Rightarrow> Inr (r\<lparr>category := c\<rparr>) | _ \<Rightarrow> Inl Unmodelled)
      else if key = ''title'' then
        (case v of PJson (JStr s) \<Rightarrow> Inr (r\<lparr>title := s\<rparr>) | _ \<Rightarrow> Inl Unmodelled)
      else if key = ''description'' then
        (case v of PJson (JStr s) \<Rightarrow> Inr (r\<lparr>description := s\<rparr>) | _ \<Rightarrow> Inl Unmodelled)
      else if key = ''severity'' then
        (case v of PSeverity s \<Rightarrow> Inr (r\<lparr>severity := s\<rparr>) | _ \<Rightarrow> Inl Unmodelled)
      else if key = ''likelihood'' then
        (case v of PLikelihood l \<Rightarrow> Inr (r\<lparr>likelihood := l\<rparr>) | _ \<Rightarrow> Inl Unmodelled)
      else if key = ''mitigations'' then
        (case v of
           PJson (JList xs) \<Rightarrow>
             (case as_str_list xs of Some ms \<Rightarrow> Inr (r\<lparr>mitigations := ms\<rparr>)
              | None \<Rightarrow> Inl Unmodelled)
         | _ \<Rightarrow> Inl Unmodelled)
      else if key = ''owner'' then
        (case v of PJson (JStr s) \<Rightarrow> Inr (r\<lparr>owner := s\<rparr>) | _ \<Rightarrow> Inl Unmodelled)
      else if key = ''status'' then
        (case v of PStatus s \<Rightarrow> Inr (r\<lparr>status := s\<rparr>) | _ \<Rightarrow> Inl Unmodelled)
      else if key = ''metadata'' then
        (case v of PJson (JObj kvs) \<Rightarrow> Inr (r\<lparr>metadata := kvs\<rparr>) | _ \<Rightarrow> Inl Unmodelled)
      else Inl Unmodelled)"

text \<open>
  \<^verbatim>\<open>setattr(risk, key, value)\<close> for a name that is not a field. The instance has a
  \<^verbatim>\<open>__dict__\<close>, so the value is stored there as an instance attribute, also under the
  name of a method or of an inherited attribute. Three names are data descriptors of
  \<^verbatim>\<open>object\<close> and do not store: \<^verbatim>\<open>__class__\<close> accepts only a class and \<^verbatim>\<open>__dict__\<close> only a
  dict (both raise \<^verbatim>\<open>TypeError\<close> otherwise; no \<open>pyval\<close> is a class), \<^verbatim>\<open>__weakref__\<close> is
  not writable. A dict assigned to \<^verbatim>\<open>__dict__\<close> replaces all the fields at once, which
  the record cannot hold. \<open>attrs\<close> is the part of the instance \<^verbatim>\<open>__dict__\<close> beyond the
  ten fields.
\<close>

type_synonym attrs = "(string \<times> pyval) list"

definition setattr_other :: "attrs \<Rightarrow> string \<Rightarrow> pyval \<Rightarrow> error + attrs" where
  "setattr_other extra key v =
     (if key = ''__class__'' then Inl TypeError
      else if key = ''__dict__'' then
        (case v of PJson (JObj kvs) \<Rightarrow> Inl Unmodelled | _ \<Rightarrow> Inl TypeError)
      else if key = ''__weakref__'' then Inl AttributeError
      else Inr (AList.update key v extra))"

text \<open>\<^verbatim>\<open>setattr(risk, key, value)\<close> on the object: its ten fields and its other attributes.\<close>

definition setattr_Risk :: "Risk \<times> attrs \<Rightarrow> string \<Rightarrow> pyval \<Rightarrow> error + Risk \<times> attrs" where
  "setattr_Risk obj key v =
     (if key \<in> set Risk_fields
      then map_sum (\<lambda>e. e) (\<lambda>r'. (r', snd obj)) (setattr_field (fst obj) key v)
      else map_sum (\<lambda>e. e) (\<lambda>extra'. (fst obj, extra')) (setattr_other (snd obj) key v))"

text \<open>One iteration of \<^verbatim>\<open>for key, value in kwargs.items()\<close>.\<close>

definition update_step :: "Risk \<times> attrs \<Rightarrow> string \<Rightarrow> pyval \<Rightarrow> error + Risk \<times> attrs" where
  "update_step obj key v =
     (if hasattr_Risk key then
        (case coerce key v of
           Inl e \<Rightarrow> Inl e
         | Inr v' \<Rightarrow> setattr_Risk obj key v')
      else Inr obj)"

text \<open>
  The loop, in the order of the keyword arguments. The risk object is mutated in place,
  so when an iteration raises, the risk keeps what the earlier iterations stored.
\<close>

fun update_fields ::
  "Risk \<times> attrs \<Rightarrow> (string \<times> pyval) list \<Rightarrow> (Risk \<times> attrs) \<times> (error + unit)" where
  "update_fields obj [] = (obj, Inr ())"
| "update_fields obj ((key, v) # kwargs) =
     (case update_step obj key v of
        Inl e \<Rightarrow> (obj, Inl e)
      | Inr obj' \<Rightarrow> update_fields obj' kwargs)"

text \<open>
  \<^verbatim>\<open>update_risk(self, id, **kwargs)\<close>. The list \<open>kwargs\<close> holds the keyword arguments of
  the call, in call order. Python binds the arguments before the body runs: a keyword
  argument named \<^verbatim>\<open>id\<close> or \<^verbatim>\<open>self\<close> names a parameter that already has its positional
  value, and the call is rejected with \<^verbatim>\<open>TypeError\<close> (multiple values for one argument),
  the registry as it was. In the body the membership test and \<^verbatim>\<open>self.risks[id]\<close> are one
  lookup, and the mutated object is the one the registry holds under \<^verbatim>\<open>id\<close>.

  The result is the registry after the call, the attributes beyond the ten fields that
  the call has stored on the risk object, and the outcome. While that attribute list is
  empty the object is a plain \<^verbatim>\<open>Risk\<close>, which the registry component describes in full.
\<close>

definition update_risk ::
  "RiskRegistry \<Rightarrow> string \<Rightarrow> (string \<times> pyval) list
     \<Rightarrow> (RiskRegistry \<times> attrs) \<times> (error + Risk)" where
  "update_risk reg i kwargs =
     (if ''self'' \<in> fst ` set kwargs \<or> ''id'' \<in> fst ` set kwargs
      then ((reg, []), Inl TypeError)
      else
        (case get_risk reg i of
           None \<Rightarrow> ((reg, []), Inl (NotFound i))
         | Some risk \<Rightarrow>
             (case update_fields (risk, []) kwargs of
                ((risk', extra), res) \<Rightarrow>
                  ((reg\<lparr>risks := AList.update i risk' (risks reg)\<rparr>, extra),
                   case res of Inl e \<Rightarrow> Inl e | Inr _ \<Rightarrow> Inr risk'))))"

text \<open>Reading a field by name, as a \<open>pyval\<close> (\<^verbatim>\<open>getattr(risk, key)\<close> on the ten fields).\<close>

definition getattr_Risk :: "Risk \<Rightarrow> string \<Rightarrow> pyval option" where
  "getattr_Risk r key =
     (if key = ''id'' then Some (PJson (JStr (id' r)))
      else if key = ''category'' then Some (PCategory (category r))
      else if key = ''title'' then Some (PJson (JStr (title r)))
      else if key = ''description'' then Some (PJson (JStr (description r)))
      else if key = ''severity'' then Some (PSeverity (severity r))
      else if key = ''likelihood'' then Some (PLikelihood (likelihood r))
      else if key = ''mitigations'' then Some (PJson (JList (map JStr (mitigations r))))
      else if key = ''owner'' then Some (PJson (JStr (owner r)))
      else if key = ''status'' then Some (PStatus (status r))
      else if key = ''metadata'' then Some (PJson (JObj (metadata r)))
      else None)"

subsection \<open>Serialization\<close>

text \<open>\<^verbatim>\<open>Risk.to_dict\<close>.\<close>

definition to_dict :: "Risk \<Rightarrow> json" where
  "to_dict r = JObj
     [(''id'', JStr (id' r)),
      (''category'', JStr (RiskCategory_value (category r))),
      (''title'', JStr (title r)),
      (''description'', JStr (description r)),
      (''severity'', JStr (Severity_value (severity r))),
      (''likelihood'', JStr (Likelihood_value (likelihood r))),
      (''mitigations'', JList (map JStr (mitigations r))),
      (''owner'', JStr (owner r)),
      (''status'', JStr (RiskStatus_value (status r))),
      (''metadata'', JObj (metadata r))]"

text \<open>
  \<^verbatim>\<open>risk.to_dict()\<close> on an object with the attributes \<open>extra\<close>, as
  \<^verbatim>\<open>export_risks_to_dict\<close> calls it. The attribute lookup finds an instance attribute
  before a method of the class; no \<open>pyval\<close> is callable, so calling a stored value raises
  \<^verbatim>\<open>TypeError\<close>.
\<close>

definition call_to_dict :: "Risk \<times> attrs \<Rightarrow> error + json" where
  "call_to_dict obj =
     (case map_of (snd obj) ''to_dict'' of
        Some v \<Rightarrow> Inl TypeError
      | None \<Rightarrow> Inr (to_dict (fst obj)))"

text \<open>\<^verbatim>\<open>data[key]\<close> and \<^verbatim>\<open>data.get(key, default)\<close> on a loaded value.\<close>

definition getitem :: "json \<Rightarrow> string \<Rightarrow> error + json" where
  "getitem data key =
     (case data of
        JObj kvs \<Rightarrow> (case map_of kvs key of Some v \<Rightarrow> Inr v | None \<Rightarrow> Inl (MissingKey key))
      | _ \<Rightarrow> Inl TypeError)"

definition get_default :: "json \<Rightarrow> string \<Rightarrow> json \<Rightarrow> error + json" where
  "get_default data key dflt =
     (case data of
        JObj kvs \<Rightarrow> (case map_of kvs key of Some v \<Rightarrow> Inr v | None \<Rightarrow> Inr dflt)
      | _ \<Rightarrow> Inl AttributeError)"

definition and_then :: "error + 'a \<Rightarrow> ('a \<Rightarrow> error + 'b) \<Rightarrow> error + 'b" where
  "and_then m f = (case m of Inl e \<Rightarrow> Inl e | Inr x \<Rightarrow> f x)"

text \<open>
  The call \<^verbatim>\<open>cls(id=..., ...)\<close> with the values read from the document. The dataclass
  stores them unchecked; the record needs each at its annotated type.
\<close>

definition Risk_of_values ::
  "json \<Rightarrow> RiskCategory \<Rightarrow> json \<Rightarrow> json \<Rightarrow> Severity \<Rightarrow> Likelihood \<Rightarrow> json \<Rightarrow> json \<Rightarrow>
   RiskStatus \<Rightarrow> json \<Rightarrow> error + Risk" where
  "Risk_of_values vi c vt vd s l vm vo st vmd =
     (case (vi, vt, vd, vm, vo, vmd) of
        (JStr i, JStr t, JStr d, JList ms, JStr ow, JObj md) \<Rightarrow>
          (case as_str_list ms of
             Some ms' \<Rightarrow>
               Inr \<lparr>id' = i, category = c, title = t, description = d, severity = s,
                    likelihood = l, mitigations = ms', owner = ow, status = st, metadata = md\<rparr>
           | None \<Rightarrow> Inl Unmodelled)
      | _ \<Rightarrow> Inl Unmodelled)"

text \<open>
  \<^verbatim>\<open>Risk.from_dict\<close>: the arguments are evaluated left to right, so the first missing
  key or invalid enumeration value in field order decides the exception.
\<close>

definition from_dict :: "json \<Rightarrow> error + Risk" where
  "from_dict data =
     and_then (getitem data ''id'') (\<lambda>vi.
     and_then (and_then (getitem data ''category'') RiskCategory_call) (\<lambda>c.
     and_then (getitem data ''title'') (\<lambda>vt.
     and_then (getitem data ''description'') (\<lambda>vd.
     and_then (and_then (getitem data ''severity'') Severity_call) (\<lambda>s.
     and_then (and_then (getitem data ''likelihood'') Likelihood_call) (\<lambda>l.
     and_then (get_default data ''mitigations'' (JList [])) (\<lambda>vm.
     and_then (get_default data ''owner'' (JStr [])) (\<lambda>vo.
     and_then (and_then (get_default data ''status'' (JStr ''identified'')) RiskStatus_call) (\<lambda>st.
     and_then (get_default data ''metadata'' (JObj [])) (\<lambda>vmd.
       Risk_of_values vi c vt vd s l vm vo st vmd))))))))))"

text \<open>\<^verbatim>\<open>export_risks_to_dict\<close>, and the document that \<^verbatim>\<open>to_json\<close> and \<^verbatim>\<open>to_yaml\<close> dump.\<close>

definition export_risks_to_dict :: "RiskRegistry \<Rightarrow> json list" where
  "export_risks_to_dict reg = map (\<lambda>(k, risk). to_dict risk) (risks reg)"

definition to_json :: "RiskRegistry \<Rightarrow> json" where
  "to_json reg = JObj [(''risks'', JList (export_risks_to_dict reg))]"

text \<open>Iterating over a loaded value (\<^verbatim>\<open>for x in v\<close>).\<close>

definition py_iter :: "json \<Rightarrow> error + json list" where
  "py_iter v =
     (case v of
        JList xs \<Rightarrow> Inr xs
      | JObj kvs \<Rightarrow> Inr (map (\<lambda>(k, x). JStr k) kvs)
      | JStr s \<Rightarrow> Inr (map (\<lambda>c. JStr [c]) s)
      | _ \<Rightarrow> Inl TypeError)"

text \<open>
  The loop of \<^verbatim>\<open>load_from_json\<close> and \<^verbatim>\<open>load_from_yaml\<close>: each record is deserialized
  and stored under its own id. A record that fails to deserialize stops the loop; the
  records before it stay merged.
\<close>

fun load_records :: "RiskRegistry \<Rightarrow> json list \<Rightarrow> RiskRegistry \<times> (error + unit)" where
  "load_records reg [] = (reg, Inr ())"
| "load_records reg (risk_data # rest) =
     (case from_dict risk_data of
        Inl e \<Rightarrow> (reg, Inl e)
      | Inr risk \<Rightarrow> load_records (reg\<lparr>risks := AList.update (id' risk) risk (risks reg)\<rparr>) rest)"

text \<open>
  \<^verbatim>\<open>load_from_json\<close> and \<^verbatim>\<open>load_from_yaml\<close> differ in the parser only. The argument
  \<open>data\<close> is what \<^verbatim>\<open>json.load\<close> or \<^verbatim>\<open>yaml.safe_load\<close> returned; the file and its
  encoding belong to those libraries, which return the dumped structure for the values
  of \<open>json\<close>.
\<close>

definition load_from_json :: "RiskRegistry \<Rightarrow> json \<Rightarrow> RiskRegistry \<times> (error + unit)" where
  "load_from_json reg data =
     (case and_then (get_default data ''risks'' (JList [])) py_iter of
        Inl e \<Rightarrow> (reg, Inl e)
      | Inr records \<Rightarrow> load_records reg records)"

definition load_from_yaml :: "RiskRegistry \<Rightarrow> json \<Rightarrow> RiskRegistry \<times> (error + unit)" where
  "load_from_yaml reg data =
     (case and_then (get_default data ''risks'' (JList [])) py_iter of
        Inl e \<Rightarrow> (reg, Inl e)
      | Inr records \<Rightarrow> load_records reg records)"

subsection \<open>The policy checker\<close>

text \<open>The class \<^verbatim>\<open>PolicyIssue\<close>; its fields \<^verbatim>\<open>severity\<close> and \<^verbatim>\<open>section\<close> are written \<open>severity'\<close> and \<open>section'\<close>.\<close>

record PolicyIssue =
  severity' :: string
  section' :: string
  message :: string

record PolicyChecker =
  issues :: "PolicyIssue list"

definition PolicyChecker_init :: PolicyChecker where
  "PolicyChecker_init = \<lparr>issues = []\<rparr>"

definition REQUIRED_SECTIONS :: "string list" where
  "REQUIRED_SECTIONS = [''scope'', ''responsibilities'', ''data_handling'',
     ''incident_response'', ''monitoring'', ''escalation'']"

definition RECOMMENDED_SECTIONS :: "string list" where
  "RECOMMENDED_SECTIONS = [''risk_assessment'', ''uncertainty_handling'', ''audit_trail'',
     ''user_consent'', ''model_governance'', ''deployment_process'']"

text \<open>A name between single quotes, as the messages format it.\<close>

definition quoted :: "string \<Rightarrow> string" where
  "quoted s = CHR 0x27 # s @ [CHR 0x27]"

text \<open>\<^verbatim>\<open>self.issues.append(PolicyIssue(severity=..., section=..., message=...))\<close>.\<close>

definition append_issue :: "PolicyChecker \<Rightarrow> string \<Rightarrow> string \<Rightarrow> string \<Rightarrow> PolicyChecker" where
  "append_issue c sev sect msg =
     c\<lparr>issues := issues c @ [\<lparr>severity' = sev, section' = sect, message = msg\<rparr>]\<rparr>"

text \<open>\<^verbatim>\<open>section not in policy or not policy[section]\<close>.\<close>

definition missing_or_empty :: "(string \<times> json) list \<Rightarrow> string \<Rightarrow> bool" where
  "missing_or_empty policy sect =
     (case map_of policy sect of None \<Rightarrow> True | Some v \<Rightarrow> \<not> truthy v)"

definition check_required_sections :: "PolicyChecker \<Rightarrow> (string \<times> json) list \<Rightarrow> PolicyChecker" where
  "check_required_sections c policy =
     fold (\<lambda>sect c'.
            if missing_or_empty policy sect
            then append_issue c' ''error'' sect
                   (''Required section '' @ quoted sect @ '' is missing or empty'')
            else c')
          REQUIRED_SECTIONS c"

definition check_recommended_sections :: "PolicyChecker \<Rightarrow> (string \<times> json) list \<Rightarrow> PolicyChecker" where
  "check_recommended_sections c policy =
     fold (\<lambda>sect c'.
            if missing_or_empty policy sect
            then append_issue c' ''warning'' sect
                   (''Recommended section '' @ quoted sect @ '' is missing'')
            else c')
          RECOMMENDED_SECTIONS c"

text \<open>\<^verbatim>\<open>policy.get(key)\<close>: the value, or \<^verbatim>\<open>None\<close>.\<close>

definition policy_get :: "(string \<times> json) list \<Rightarrow> string \<Rightarrow> json" where
  "policy_get policy key = (case map_of policy key of None \<Rightarrow> JNull | Some v \<Rightarrow> v)"

text \<open>
  \<^verbatim>\<open>key in v\<close> for a string \<^verbatim>\<open>key\<close>: a key of a dict, an element of a list, a substring
  of a string; \<^verbatim>\<open>TypeError\<close> on a number, a boolean or \<^verbatim>\<open>None\<close>.
\<close>

definition py_in :: "string \<Rightarrow> json \<Rightarrow> error + bool" where
  "py_in key v =
     (case v of
        JObj kvs \<Rightarrow> Inr (key \<in> fst ` set kvs)
      | JList xs \<Rightarrow> Inr (JStr key \<in> set xs)
      | JStr s \<Rightarrow> Inr (sublist key s)
      | _ \<Rightarrow> Inl TypeError)"

text \<open>
  One field check: \<^verbatim>\<open>if key not in sect: self.issues.append(...)\<close>. The checks of one
  section run in sequence; one that raises ends the run.
\<close>

definition check_field ::
  "json \<Rightarrow> string \<Rightarrow> string \<Rightarrow> string \<Rightarrow> string \<Rightarrow> PolicyChecker \<Rightarrow> PolicyChecker \<times> (error + unit)" where
  "check_field v key sev sect msg c =
     (case py_in key v of
        Inl e \<Rightarrow> (c, Inl e)
      | Inr present \<Rightarrow> (if present then c else append_issue c sev sect msg, Inr ()))"

fun run_checks ::
  "(PolicyChecker \<Rightarrow> PolicyChecker \<times> (error + unit)) list \<Rightarrow> PolicyChecker \<Rightarrow>
   PolicyChecker \<times> (error + unit)" where
  "run_checks [] c = (c, Inr ())"
| "run_checks (f # fs) c =
     (case f c of
        (c', Inl e) \<Rightarrow> (c', Inl e)
      | (c', Inr u) \<Rightarrow> run_checks fs c')"

definition check_scope :: "json \<Rightarrow> PolicyChecker \<Rightarrow> PolicyChecker \<times> (error + unit)" where
  "check_scope scope c =
     (if \<not> truthy scope then (c, Inr ())
      else run_checks
        [check_field scope ''system_description'' ''warning'' ''scope''
           (''Missing '' @ quoted ''system_description'' @ '' in scope''),
         check_field scope ''boundaries'' ''warning'' ''scope''
           (''Missing '' @ quoted ''boundaries'' @ '' definition in scope'')] c)"

definition check_responsibilities :: "json \<Rightarrow> PolicyChecker \<Rightarrow> PolicyChecker \<times> (error + unit)" where
  "check_responsibilities responsibilities c =
     (if \<not> truthy responsibilities then (c, Inr ())
      else run_checks
        (map (\<lambda>role. check_field responsibilities role ''info'' ''responsibilities''
                       (''Consider defining '' @ quoted role @ '' role''))
             [''system_owner'', ''incident_responder'', ''data_steward'']) c)"

definition check_data_handling :: "json \<Rightarrow> PolicyChecker \<Rightarrow> PolicyChecker \<times> (error + unit)" where
  "check_data_handling data_handling c =
     (if \<not> truthy data_handling then (c, Inr ())
      else run_checks
        [check_field data_handling ''retention_policy'' ''warning'' ''data_handling''
           (''Missing '' @ quoted ''retention_policy''),
         check_field data_handling ''privacy_measures'' ''warning'' ''data_handling''
           (''Missing '' @ quoted ''privacy_measures''),
         check_field data_handling ''data_classification'' ''info'' ''data_handling''
           (''Consider adding '' @ quoted ''data_classification'')] c)"

definition check_incident_response :: "json \<Rightarrow> PolicyChecker \<Rightarrow> PolicyChecker \<times> (error + unit)" where
  "check_incident_response incident_response c =
     (if \<not> truthy incident_response then (c, Inr ())
      else run_checks
        [check_field incident_response ''severity_levels'' ''warning'' ''incident_response''
           (''Missing '' @ quoted ''severity_levels'' @ '' definition''),
         check_field incident_response ''response_procedures'' ''error'' ''incident_response''
           (''Missing '' @ quoted ''response_procedures''),
         check_field incident_response ''escalation_path'' ''warning'' ''incident_response''
           (''Missing '' @ quoted ''escalation_path'')] c)"

definition check_monitoring :: "json \<Rightarrow> PolicyChecker \<Rightarrow> PolicyChecker \<times> (error + unit)" where
  "check_monitoring monitoring c =
     (if \<not> truthy monitoring then (c, Inr ())
      else run_checks
        [check_field monitoring ''metrics'' ''warning'' ''monitoring''
           (''Missing '' @ quoted ''metrics'' @ '' definition''),
         check_field monitoring ''alerting'' ''info'' ''monitoring''
           (''Consider defining '' @ quoted ''alerting'' @ '' mechanisms'')] c)"

text \<open>
  \<^verbatim>\<open>check_policy\<close>: the checker after the call, and the returned list (which is
  \<^verbatim>\<open>self.issues\<close>) or the exception.
\<close>

definition check_policy ::
  "PolicyChecker \<Rightarrow> (string \<times> json) list \<Rightarrow> PolicyChecker \<times> (error + PolicyIssue list)" where
  "check_policy c policy =
     (let c0 = c\<lparr>issues := []\<rparr>;
          c1 = check_required_sections c0 policy;
          c2 = check_recommended_sections c1 policy
      in case run_checks
            [check_scope (policy_get policy ''scope''),
             check_responsibilities (policy_get policy ''responsibilities''),
             check_data_handling (policy_get policy ''data_handling''),
             check_incident_response (policy_get policy ''incident_response''),
             check_monitoring (policy_get policy ''monitoring'')] c2 of
           (c', Inl e) \<Rightarrow> (c', Inl e)
         | (c', Inr u) \<Rightarrow> (c', Inr (issues c')))"

text \<open>\<^verbatim>\<open>PolicyChecker.get_summary\<close>.\<close>

record PolicySummary =
  total_issues :: nat
  errors :: nat
  warnings :: nat
  info :: nat
  passed :: bool

definition with_severity :: "string \<Rightarrow> PolicyIssue list \<Rightarrow> PolicyIssue list" where
  "with_severity sev xs = filter (\<lambda>i. severity' i = sev) xs"

definition PolicyChecker_get_summary :: "PolicyChecker \<Rightarrow> PolicySummary" where
  "PolicyChecker_get_summary c =
     \<lparr>total_issues = length (issues c),
      errors = length (with_severity ''error'' (issues c)),
      warnings = length (with_severity ''warning'' (issues c)),
      info = length (with_severity ''info'' (issues c)),
      passed = (length (with_severity ''error'' (issues c)) = 0)\<rparr>"

subsection \<open>Uncertainty tags\<close>

definition TAG_FACT :: string where "TAG_FACT = ''[FACT]''"
definition TAG_ESTIMATE :: string where "TAG_ESTIMATE = ''[ESTIMATE]''"
definition TAG_UNKNOWN :: string where "TAG_UNKNOWN = ''[UNKNOWN]''"
definition TAG_ASSUMPTION :: string where "TAG_ASSUMPTION = ''[ASSUMPTION]''"
definition TAG_SPECULATION :: string where "TAG_SPECULATION = ''[SPECULATION]''"

definition ALL_TAGS :: "string list" where
  "ALL_TAGS = [TAG_FACT, TAG_ESTIMATE, TAG_UNKNOWN, TAG_ASSUMPTION, TAG_SPECULATION]"

text \<open>\<^verbatim>\<open>tag_fact\<close>: \<^verbatim>\<open>f"{TAG_FACT} {text}"\<close>.\<close>

definition tag_fact :: "string \<Rightarrow> string" where
  "tag_fact text = TAG_FACT @ '' '' @ text"

text \<open>
  \<^verbatim>\<open>str.replace(old, new)\<close>: the occurrences of \<open>old\<close> are found from left to right and
  do not overlap; an empty \<open>old\<close> matches before every character and at the end.
\<close>

function str_replace :: "string \<Rightarrow> string \<Rightarrow> string \<Rightarrow> string" where
  "str_replace old new [] = (if old = [] then new else [])"
| "str_replace old new (c # cs) =
     (if old = [] then new @ c # str_replace old new cs
      else if prefix old (c # cs) then new @ str_replace old new (drop (length old) (c # cs))
      else c # str_replace old new cs)"
  by pat_completeness auto
termination
  by (relation "measure (\<lambda>(old, new, s). length s)") auto

text \<open>
  The characters that \<^verbatim>\<open>\s\<close> matches and \<^verbatim>\<open>str.strip()\<close> removes. A \<open>char\<close> stands
  for a code point below 256; among these the whitespace ones are 9 to 13, 28 to 32,
  133 and 160.
\<close>

definition isspace :: "char \<Rightarrow> bool" where
  "isspace c = ((of_char c :: nat) \<in> set [9, 10, 11, 12, 13, 28, 29, 30, 31, 32, 133, 160])"

text \<open>\<^verbatim>\<open>re.sub(r'\s+', ' ', s)\<close>: every maximal run of whitespace becomes one space.\<close>

function collapse_ws :: "string \<Rightarrow> string" where
  "collapse_ws [] = []"
| "collapse_ws (c # cs) =
     (if isspace c then CHR '' '' # collapse_ws (dropWhile isspace cs)
      else c # collapse_ws cs)"
  by pat_completeness auto
termination
  by (relation "measure length") (auto simp: length_dropWhile_le less_Suc_eq_le)

text \<open>\<^verbatim>\<open>str.strip()\<close>.\<close>

definition strip :: "string \<Rightarrow> string" where
  "strip s = rev (dropWhile isspace (rev (dropWhile isspace s)))"

text \<open>\<^verbatim>\<open>strip_tags\<close>: the tags are removed one after the other, in the order of \<^verbatim>\<open>ALL_TAGS\<close>.\<close>

definition strip_tags :: "string \<Rightarrow> string" where
  "strip_tags text =
     strip (collapse_ws (fold (\<lambda>tag result. str_replace tag [] result) ALL_TAGS text))"

subsection \<open>Registry queries used by the report\<close>

text \<open>
  \<^verbatim>\<open>list_risks\<close>: a filter is applied when its argument is truthy, so \<^verbatim>\<open>None\<close> and the
  empty owner string select everything.
\<close>

definition list_risks ::
  "RiskRegistry \<Rightarrow> RiskCategory option \<Rightarrow> Severity option \<Rightarrow> RiskStatus option \<Rightarrow>
   string option \<Rightarrow> Risk list" where
  "list_risks reg cat sev st own =
     (let results = map snd (risks reg);
          results = (case cat of Some c \<Rightarrow> filter (\<lambda>r. category r = c) results | None \<Rightarrow> results);
          results = (case sev of Some s \<Rightarrow> filter (\<lambda>r. severity r = s) results | None \<Rightarrow> results);
          results = (case st of Some s \<Rightarrow> filter (\<lambda>r. status r = s) results | None \<Rightarrow> results);
          results = (case own of
                       Some ow \<Rightarrow> if ow \<noteq> [] then filter (\<lambda>r. owner r = ow) results else results
                     | None \<Rightarrow> results)
      in results)"

text \<open>\<^verbatim>\<open>d[k] = d.get(k, 0) + 1\<close> and \<^verbatim>\<open>d.get(k, 0)\<close>.\<close>

definition get_count :: "(string \<times> nat) list \<Rightarrow> string \<Rightarrow> nat" where
  "get_count d k = (case map_of d k of None \<Rightarrow> 0 | Some n \<Rightarrow> n)"

definition count_into :: "string \<Rightarrow> (string \<times> nat) list \<Rightarrow> (string \<times> nat) list" where
  "count_into k d = AList.update k (get_count d k + 1) d"

record RiskSummary =
  total :: nat
  by_severity :: "(string \<times> nat) list"
  by_status :: "(string \<times> nat) list"
  by_category :: "(string \<times> nat) list"

text \<open>\<^verbatim>\<open>RiskRegistry.get_summary\<close>.\<close>

definition RiskRegistry_get_summary :: "RiskRegistry \<Rightarrow> RiskSummary" where
  "RiskRegistry_get_summary reg =
     (let rs = map snd (risks reg) in
      \<lparr>total = length (risks reg),
       by_severity = fold (\<lambda>r. count_into (Severity_value (severity r))) rs [],
       by_status = fold (\<lambda>r. count_into (RiskStatus_value (status r))) rs [],
       by_category = fold (\<lambda>r. count_into (RiskCategory_value (category r))) rs []\<rparr>)"

subsection \<open>String formatting\<close>

text \<open>\<^verbatim>\<open>str(n)\<close> for a count.\<close>

function str_nat :: "nat \<Rightarrow> string" where
  "str_nat n =
     (if n < 10 then [char_of (48 + n)]
      else str_nat (n div 10) @ [char_of (48 + n mod 10)])"
  by pat_completeness auto
termination
  by (relation "measure (\<lambda>n. n)") auto

declare str_nat.simps [simp del]

text \<open>
  \<^verbatim>\<open>str.title()\<close> on ASCII letters: a letter that follows a letter is lowered, any other
  letter is raised. The report applies it to enumeration values only.
\<close>

definition is_lower :: "char \<Rightarrow> bool" where
  "is_lower c = (97 \<le> (of_char c :: nat) \<and> (of_char c :: nat) \<le> 122)"

definition is_upper :: "char \<Rightarrow> bool" where
  "is_upper c = (65 \<le> (of_char c :: nat) \<and> (of_char c :: nat) \<le> 90)"

definition to_upper :: "char \<Rightarrow> char" where
  "to_upper c = (if is_lower c then char_of ((of_char c :: nat) - 32) else c)"

definition to_lower :: "char \<Rightarrow> char" where
  "to_lower c = (if is_upper c then char_of ((of_char c :: nat) + 32) else c)"

fun title_from :: "bool \<Rightarrow> string \<Rightarrow> string" where
  "title_from prev [] = []"
| "title_from prev (c # cs) =
     (if is_lower c \<or> is_upper c
      then (if prev then to_lower c else to_upper c) # title_from True cs
      else c # title_from False cs)"

definition str_title :: "string \<Rightarrow> string" where
  "str_title s = title_from False s"

text \<open>\<^verbatim>\<open>"\n".join(lines)\<close>.\<close>

fun join_lines :: "string list \<Rightarrow> string" where
  "join_lines [] = []"
| "join_lines [l] = l"
| "join_lines (l # ls) = l @ CHR 0x0A # join_lines ls"

text \<open>
  The pictographs that open some of the lines, as the bytes of the source literals.
\<close>

definition glyph_check :: string where
  "glyph_check = [CHR 0xC3, CHR 0xA2, CHR 0xC5, CHR 0x93, CHR 0xE2, CHR 0x80, CHR 0xA6]"

definition glyph_cross :: string where
  "glyph_cross = [CHR 0xC3, CHR 0xA2, CHR 0xC5, CHR 0x92]"

definition glyph_warning :: string where
  "glyph_warning = [CHR 0xC3, CHR 0xA2, CHR 0xC5, CHR 0xA1, CHR 0xC2, CHR 0xA0,
     CHR 0xC3, CHR 0xAF, CHR 0xC2, CHR 0xB8]"

definition glyph_red :: string where
  "glyph_red = [CHR 0xC3, CHR 0xB0, CHR 0xC5, CHR 0xB8, CHR 0xE2, CHR 0x80, CHR 0x9D,
     CHR 0xC2, CHR 0xB4]"

definition glyph_bulb :: string where
  "glyph_bulb = [CHR 0xC3, CHR 0xB0, CHR 0xC5, CHR 0xB8, CHR 0xE2, CHR 0x80, CHR 0x99,
     CHR 0xC2, CHR 0xA1]"

subsection \<open>The report builder\<close>

text \<open>
  The builder keeps references to a registry and a checker. The record holds the
  referenced objects as they are when the report is built.
\<close>

record TrustReportBuilder =
  risk_registry :: "RiskRegistry option"
  policy_checker :: "PolicyChecker option"
  manual_notes :: "string list"
  system_name :: string
  system_version :: string






text \<open>
  \<^verbatim>\<open>self.policy_checker and self.policy_checker.issues\<close>: a checker object is truthy, a
  list is truthy when it is not empty.
\<close>

definition checker_with_issues :: "TrustReportBuilder \<Rightarrow> PolicyChecker option" where
  "checker_with_issues b =
     (case policy_checker b of
        None \<Rightarrow> None
      | Some c \<Rightarrow> if issues c \<noteq> [] then Some c else None)"

definition build_executive_summary :: "TrustReportBuilder \<Rightarrow> string list" where
  "build_executive_summary b =
     (case risk_registry b of
        None \<Rightarrow> []
      | Some reg \<Rightarrow>
          (let risk_summary = RiskRegistry_get_summary reg in
           [''**Total Risks Identified**: '' @ str_nat (total risk_summary),
            ''- Critical: '' @ str_nat (get_count (by_severity risk_summary) ''critical''),
            ''- High: '' @ str_nat (get_count (by_severity risk_summary) ''high''),
            []]))
     @
     (case checker_with_issues b of
        None \<Rightarrow> []
      | Some c \<Rightarrow>
          (let summary = PolicyChecker_get_summary c in
           [''**Policy Compliance**: '' @
              (if passed summary then glyph_check @ '' Passed'' else glyph_cross @ '' Failed''),
            ''- Errors: '' @ str_nat (errors summary),
            ''- Warnings: '' @ str_nat (warnings summary),
            []]))"

definition risk_row :: "Risk \<Rightarrow> string" where
  "risk_row risk =
     ''| '' @ id' risk @ '' | '' @ title risk @ '' | '' @ Severity_value (severity risk) @ '' | ''
     @ RiskStatus_value (status risk) @ '' | ''
     @ (if owner risk \<noteq> [] then owner risk else ''Unassigned'') @ '' |''"

definition build_risk_section :: "TrustReportBuilder \<Rightarrow> string list" where
  "build_risk_section b =
     (case risk_registry b of
        None \<Rightarrow> []
      | Some reg \<Rightarrow>
          (let risk_summary = RiskRegistry_get_summary reg;
               critical_risks = list_risks reg None None None None;
               high_priority =
                 filter (\<lambda>r. Severity_value (severity r) \<in> set [''critical'', ''high''])
                   critical_risks
           in
             [''### Risk Summary'', [], ''Total Risks: '' @ str_nat (total risk_summary), [],
              ''**By Severity:**'']
             @ map (\<lambda>(sev, count). ''- '' @ str_title sev @ '': '' @ str_nat count)
                 (by_severity risk_summary)
             @ [[], ''**By Category:**'']
             @ map (\<lambda>(cat, count).
                      ''- '' @ str_title (str_replace ''_'' '' '' cat) @ '': '' @ str_nat count)
                 (by_category risk_summary)
             @ [[]]
             @ (if high_priority \<noteq> [] then
                  [''### High Priority Risks'', [],
                   ''| ID | Title | Severity | Status | Owner |'', ''|---|---|---|---|---|'']
                  @ map risk_row
                      (sort_key (\<lambda>r. (Severity_value (severity r), id' r)) high_priority)
                  @ [[]]
                else [])))"

definition issue_line :: "PolicyIssue \<Rightarrow> string" where
  "issue_line issue = ''- **'' @ section' issue @ ''**: '' @ message issue"

definition build_policy_section :: "TrustReportBuilder \<Rightarrow> string list" where
  "build_policy_section b =
     (case checker_with_issues b of
        None \<Rightarrow> [glyph_check @ '' No policy compliance issues found.'']
      | Some c \<Rightarrow>
          (let summary = PolicyChecker_get_summary c;
               errs = with_severity ''error'' (issues c);
               warns = with_severity ''warning'' (issues c)
           in
             [''**Status**: '' @
                (if \<not> passed summary then glyph_cross @ '' Failed''
                 else glyph_warning @ ''  Passed with warnings''),
              []]
             @ (if errs \<noteq> [] then [''### Errors'', []] @ map issue_line errs @ [[]] else [])
             @ (if warns \<noteq> [] then [''### Warnings'', []] @ map issue_line warns @ [[]]
                else [])))"

definition build_recommendations :: "TrustReportBuilder \<Rightarrow> string list" where
  "build_recommendations b =
     (let recommendations =
            (case risk_registry b of
               None \<Rightarrow> []
             | Some reg \<Rightarrow>
                 (let risk_summary = RiskRegistry_get_summary reg;
                      critical_count = get_count (by_severity risk_summary) ''critical'';
                      identified_risks =
                        filter (\<lambda>r. RiskStatus_value (status r) = ''identified'')
                          (map snd (risks reg))
                  in
                    (if critical_count > 0 then
                       [glyph_red @ '' **URGENT**: Address '' @ str_nat critical_count
                        @ '' critical risk(s) before deployment'']
                     else [])
                    @ (if identified_risks \<noteq> [] then
                         [glyph_warning @ ''  Move '' @ str_nat (length identified_risks)
                          @ '' identified risk(s) to active mitigation'']
                       else [])))
            @
            (case checker_with_issues b of
               None \<Rightarrow> []
             | Some c \<Rightarrow>
                 (let summary = PolicyChecker_get_summary c in
                    (if errors summary > 0 then
                       [glyph_cross @ '' Fix '' @ str_nat (errors summary)
                        @ '' policy error(s) before proceeding'']
                     else [])
                    @ (if warnings summary > 5 then
                         [glyph_warning
                          @ ''  High number of policy warnings - consider comprehensive policy review'']
                       else [])));
          recommendations =
            (if recommendations = [] then
               [glyph_check @ '' No urgent recommendations at this time'',
                glyph_bulb @ '' Continue monitoring and regular risk reviews'']
             else recommendations)
      in map (\<lambda>rec. ''- '' @ rec) recommendations)"

text \<open>
  \<^verbatim>\<open>build_markdown\<close>. The list \<open>markdown_lines\<close> is the variable \<^verbatim>\<open>lines\<close> at the
  \<^verbatim>\<open>return\<close>; \<open>now\<close> is the formatted time of the call. An empty line is \<open>[]\<close>.
\<close>

definition markdown_lines :: "string \<Rightarrow> TrustReportBuilder \<Rightarrow> string list" where
  "markdown_lines now b =
     [''# Trust Report: '' @ system_name b,
      ''**Version**: '' @ system_version b,
      ''**Generated**: '' @ now,
      [], ''---'', [],
      ''## Executive Summary'', []]
     @ build_executive_summary b
     @ [[]]
     @ (if risk_registry b \<noteq> None then
          [''## Risk Assessment'', []] @ build_risk_section b @ [[]]
        else [])
     @ (if checker_with_issues b \<noteq> None then
          [''## Policy Compliance'', []] @ build_policy_section b @ [[]]
        else [])
     @ (if manual_notes b \<noteq> [] then
          [''## Additional Notes'', []] @ map (\<lambda>note. ''- '' @ note) (manual_notes b) @ [[]]
        else [])
     @ [''## Recommendations'', []]
     @ build_recommendations b
     @ [[], ''---'', [],
        ''*This report was generated automatically by TrustByDesign toolkit.*'']"

definition build_markdown :: "string \<Rightarrow> TrustReportBuilder \<Rightarrow> string" where
  "build_markdown now b = join_lines (markdown_lines now b)"

subsection \<open>Predicates used in the statements\<close>

text \<open>
  The registry keeps every risk under its own id, each id once. \<^verbatim>\<open>add_risk\<close> and the
  load loop store a risk under \<^verbatim>\<open>risk.id\<close>, and \<^verbatim>\<open>update_risk\<close> never assigns \<^verbatim>\<open>id\<close>: a call
  with \<^verbatim>\<open>id\<close> among its keyword arguments is rejected before the loop.
\<close>

definition keyed_by_id :: "RiskRegistry \<Rightarrow> bool" where
  "keyed_by_id reg =
     (distinct (map fst (risks reg)) \<and> list_all (\<lambda>(k, risk). k = id' risk) (risks reg))"

text \<open>A value has the annotated type of the field it is assigned to.\<close>

definition has_field_type :: "string \<Rightarrow> pyval \<Rightarrow> bool" where
  "has_field_type key v =
     (if key \<in> set [''id'', ''title'', ''description'', ''owner''] then
        (case v of PJson (JStr s) \<Rightarrow> True | _ \<Rightarrow> False)
      else if key = ''category'' then (case v of PCategory c \<Rightarrow> True | _ \<Rightarrow> False)
      else if key = ''severity'' then (case v of PSeverity s \<Rightarrow> True | _ \<Rightarrow> False)
      else if key = ''likelihood'' then (case v of PLikelihood l \<Rightarrow> True | _ \<Rightarrow> False)
      else if key = ''status'' then (case v of PStatus s \<Rightarrow> True | _ \<Rightarrow> False)
      else if key = ''mitigations'' then
        (case v of PJson (JList xs) \<Rightarrow> as_str_list xs \<noteq> None | _ \<Rightarrow> False)
      else if key = ''metadata'' then (case v of PJson (JObj kvs) \<Rightarrow> True | _ \<Rightarrow> False)
      else False)"

text \<open>
  A keyword argument that names a field or no attribute at all: when the name is an
  attribute it is a field, given a value of the field's type or, for an enumeration
  field, the string of a member.
\<close>

definition valid_kwarg :: "string \<Rightarrow> pyval \<Rightarrow> bool" where
  "valid_kwarg key v =
     (if hasattr_Risk key then
        (case coerce key v of Inl e \<Rightarrow> False | Inr v' \<Rightarrow> has_field_type key v')
      else True)"

text \<open>
  The keyword arguments of a call that Python binds to \<^verbatim>\<open>**kwargs\<close>: none has the name of
  a parameter of \<^verbatim>\<open>update_risk(self, id, **kwargs)\<close>.
\<close>

definition keyword_only :: "(string \<times> pyval) list \<Rightarrow> bool" where
  "keyword_only kwargs = (''self'' \<notin> fst ` set kwargs \<and> ''id'' \<notin> fst ` set kwargs)"

text \<open>A line that opens a section of the Markdown report.\<close>

definition is_section_header :: "string \<Rightarrow> bool" where
  "is_section_header line = prefix ''## '' line"

subsection \<open>Example values\<close>

definition risk_1 :: Risk where
  "risk_1 = \<lparr>id' = ''RISK-001'', category = SECURITY, title = ''Prompt injection'',
     description = ''Untrusted input reaches the model'', severity = CRITICAL,
     likelihood = Likelihood.MEDIUM, mitigations = [''Input filtering'', ''Audit log''],
     owner = ''Security Team'', status = MITIGATING,
     metadata = [(''detected_date'', JStr ''2025-01-01''),
                 (''related_incidents'', JList [JStr ''INC-001'', JStr ''INC-002''])]\<rparr>"

definition risk_2 :: Risk where
  "risk_2 = \<lparr>id' = ''RISK-002'', category = BIAS, title = ''Bias Risk'',
     description = ''Test bias'', severity = Severity.MEDIUM, likelihood = Likelihood.HIGH,
     mitigations = [], owner = [], status = IDENTIFIED, metadata = []\<rparr>"

definition registry_12 :: RiskRegistry where
  "registry_12 = \<lparr>risks = [(''RISK-001'', risk_1), (''RISK-002'', risk_2)]\<rparr>"

definition risk_1_revised :: Risk where
  "risk_1_revised = \<lparr>id' = ''RISK-001'', category = SECURITY, title = ''Prompt injection (revised)'',
     description = ''Reassessed'', severity = Severity.HIGH, likelihood = Likelihood.LOW,
     mitigations = [''Input filtering''], owner = ''Platform Team'', status = MONITORING,
     metadata = []\<rparr>"

definition risk_3 :: Risk where
  "risk_3 = \<lparr>id' = ''RISK-003'', category = PRIVACY, title = ''Data leak'',
     description = ''Logs keep user text'', severity = Severity.HIGH,
     likelihood = Likelihood.MEDIUM, mitigations = [''Redaction''], owner = ''ML Team'',
     status = ANALYZING, metadata = [(''impact_score'', JInt 8)]\<rparr>"

text \<open>A record without the optional keys, and the same record with a severity outside the vocabulary.\<close>

definition doc_bias :: json where
  "doc_bias = JObj
     [(''id'', JStr ''RISK-002''), (''category'', JStr ''bias''), (''title'', JStr ''Bias Risk''),
      (''description'', JStr ''Test bias''), (''severity'', JStr ''medium''),
      (''likelihood'', JStr ''high'')]"

definition doc_bad_severity :: json where
  "doc_bad_severity = JObj
     [(''id'', JStr ''RISK-002''), (''category'', JStr ''bias''), (''title'', JStr ''Bias Risk''),
      (''description'', JStr ''Test bias''), (''severity'', JStr ''extreme''),
      (''likelihood'', JStr ''high'')]"

text \<open>A policy that has a scope section only, and a checker that already holds an issue.\<close>

definition policy_scope_only :: "(string \<times> json) list" where
  "policy_scope_only = [(''scope'', JObj [(''system_name'', JStr ''Test'')])]"

definition used_checker :: PolicyChecker where
  "used_checker = \<lparr>issues = [\<lparr>severity' = ''error'', section' = ''monitoring'',
     message = ''left over from an earlier run''\<rparr>]\<rparr>"


section \<open>Properties\<close>

subsection \<open>Registry: helper lemmas\<close>

lemma has_risk_get: "has_risk reg i \<longleftrightarrow> get_risk reg i \<noteq> None"
  by (simp add: has_risk_def get_risk_def map_of_eq_None_iff)

lemma as_str_list_Some: "as_str_list xs = Some ms \<Longrightarrow> map JStr ms = xs"
  by (induction xs arbitrary: ms rule: as_str_list.induct) auto

lemma as_str_list_map: "as_str_list (map JStr ms) = Some ms"
  by (induction ms) auto

lemma setattr_cases:
  assumes "setattr_field r key v = Inr r'"
  shows "(key = ''id'' \<and> (\<exists>s. v = PJson (JStr s) \<and> r' = r\<lparr>id' := s\<rparr>))
       \<or> (key = ''category'' \<and> (\<exists>c. v = PCategory c \<and> r' = r\<lparr>category := c\<rparr>))
       \<or> (key = ''title'' \<and> (\<exists>s. v = PJson (JStr s) \<and> r' = r\<lparr>title := s\<rparr>))
       \<or> (key = ''description'' \<and> (\<exists>s. v = PJson (JStr s) \<and> r' = r\<lparr>description := s\<rparr>))
       \<or> (key = ''severity'' \<and> (\<exists>s. v = PSeverity s \<and> r' = r\<lparr>severity := s\<rparr>))
       \<or> (key = ''likelihood'' \<and> (\<exists>l. v = PLikelihood l \<and> r' = r\<lparr>likelihood := l\<rparr>))
       \<or> (key = ''mitigations'' \<and> (\<exists>ms. v = PJson (JList (map JStr ms)) \<and> r' = r\<lparr>mitigations := ms\<rparr>))
       \<or> (key = ''owner'' \<and> (\<exists>s. v = PJson (JStr s) \<and> r' = r\<lparr>owner := s\<rparr>))
       \<or> (key = ''status'' \<and> (\<exists>s. v = PStatus s \<and> r' = r\<lparr>status := s\<rparr>))
       \<or> (key = ''metadata'' \<and> (\<exists>kvs. v = PJson (JObj kvs) \<and> r' = r\<lparr>metadata := kvs\<rparr>))"
  using assms unfolding setattr_field_def
  by (auto split: if_splits pyval.splits json.splits option.splits dest: as_str_list_Some)

lemma getattr_upd:
  "getattr_Risk (r\<lparr>id' := s\<rparr>) k = (if k = ''id'' then Some (PJson (JStr s)) else getattr_Risk r k)"
  "getattr_Risk (r\<lparr>category := c\<rparr>) k = (if k = ''category'' then Some (PCategory c) else getattr_Risk r k)"
  "getattr_Risk (r\<lparr>title := s\<rparr>) k = (if k = ''title'' then Some (PJson (JStr s)) else getattr_Risk r k)"
  "getattr_Risk (r\<lparr>description := s\<rparr>) k = (if k = ''description'' then Some (PJson (JStr s)) else getattr_Risk r k)"
  "getattr_Risk (r\<lparr>severity := sv\<rparr>) k = (if k = ''severity'' then Some (PSeverity sv) else getattr_Risk r k)"
  "getattr_Risk (r\<lparr>likelihood := l\<rparr>) k = (if k = ''likelihood'' then Some (PLikelihood l) else getattr_Risk r k)"
  "getattr_Risk (r\<lparr>mitigations := ms\<rparr>) k = (if k = ''mitigations'' then Some (PJson (JList (map JStr ms))) else getattr_Risk r k)"
  "getattr_Risk (r\<lparr>owner := s\<rparr>) k = (if k = ''owner'' then Some (PJson (JStr s)) else getattr_Risk r k)"
  "getattr_Risk (r\<lparr>status := st\<rparr>) k = (if k = ''status'' then Some (PStatus st) else getattr_Risk r k)"
  "getattr_Risk (r\<lparr>metadata := kvs\<rparr>) k = (if k = ''metadata'' then Some (PJson (JObj kvs)) else getattr_Risk r k)"
  by (simp_all add: getattr_Risk_def)

lemma setattr_frame:
  assumes "setattr_field r key v = Inr r'"
  shows "getattr_Risk r' key = Some v \<and> (\<forall>k. k \<noteq> key \<longrightarrow> getattr_Risk r' k = getattr_Risk r k)"
  using setattr_cases[OF assms] by (elim disjE conjE exE) (simp_all add: getattr_upd)

lemma setattr_ok: "has_field_type key v \<Longrightarrow> \<exists>r'. setattr_field r key v = Inr r'"
  unfolding setattr_field_def has_field_type_def
  by (auto split: if_splits pyval.splits json.splits option.splits)

lemma has_field_type_field: "has_field_type key v \<Longrightarrow> key \<in> set Risk_fields"
  unfolding has_field_type_def Risk_fields_def by (auto split: if_splits)

lemma valid_kwarg_field: "valid_kwarg key v \<Longrightarrow> hasattr_Risk key \<Longrightarrow> key \<in> set Risk_fields"
  by (cases "coerce key v") (auto simp: valid_kwarg_def dest: has_field_type_field)

lemma setattr_Risk_field:
  assumes "key \<in> set Risk_fields" and "setattr_Risk (r, ex) key v = Inr (r', ex')"
  shows "setattr_field r key v = Inr r' \<and> ex' = ex"
  using assms by (cases "setattr_field r key v") (auto simp: setattr_Risk_def)

lemma setattr_Risk_other:
  assumes "key \<notin> set Risk_fields" and "setattr_Risk (r, ex) key v = Inr (r', ex')"
  shows "r' = r \<and> setattr_other ex key v = Inr ex'"
  using assms by (cases "setattr_other ex key v") (auto simp: setattr_Risk_def)

lemma update_step_cases:
  assumes "update_step (r, ex) key v = Inr (r', ex')"
  shows "(\<not> hasattr_Risk key \<and> r' = r \<and> ex' = ex)
       \<or> (hasattr_Risk key \<and> (\<exists>v'. coerce key v = Inr v' \<and> setattr_Risk (r, ex) key v' = Inr (r', ex')))"
  using assms by (auto simp: update_step_def split: if_splits sum.splits)

lemma update_step_frame:
  assumes "update_step (r, ex) key v = Inr (r', ex')"
  shows "(\<forall>k. k \<noteq> key \<longrightarrow> getattr_Risk r' k = getattr_Risk r k)
       \<and> (key \<in> set Risk_fields \<longrightarrow> (\<exists>v'. coerce key v = Inr v' \<and> getattr_Risk r' key = Some v'))"
proof (cases "key \<in> set Risk_fields")
  case True
  then have "hasattr_Risk key" by (simp add: hasattr_Risk_def)
  with update_step_cases[OF assms] obtain v' where c: "coerce key v = Inr v'"
    and m: "setattr_Risk (r, ex) key v' = Inr (r', ex')"
    by auto
  from setattr_Risk_field[OF True m] have s: "setattr_field r key v' = Inr r'" by simp
  from setattr_frame[OF s] c show ?thesis by auto
next
  case False
  with update_step_cases[OF assms] have "r' = r"
    by (auto dest: setattr_Risk_other)
  with False show ?thesis by simp
qed

lemma update_step_ok: "valid_kwarg key v \<Longrightarrow> \<exists>obj'. update_step obj key v = Inr obj'"
proof (cases "hasattr_Risk key")
  case False
  then show ?thesis by (simp add: update_step_def)
next
  case True
  assume "valid_kwarg key v"
  with True obtain v' where c: "coerce key v = Inr v'" and t: "has_field_type key v'"
    by (auto simp: valid_kwarg_def split: sum.splits)
  from setattr_ok[OF t] obtain r' where "setattr_field (fst obj) key v' = Inr r'" by blast
  with True c has_field_type_field[OF t] show ?thesis
    by (simp add: update_step_def setattr_Risk_def)
qed

lemma update_fields_ok:
  "list_all (\<lambda>(k, v). valid_kwarg k v) kwargs \<Longrightarrow> \<exists>obj'. update_fields obj kwargs = (obj', Inr ())"
proof (induction kwargs arbitrary: obj)
  case Nil
  then show ?case by simp
next
  case (Cons kv kwargs)
  obtain k v where kv: "kv = (k, v)" by (cases kv)
  with Cons.prems obtain obj1 where "update_step obj k v = Inr obj1"
    using update_step_ok by fastforce
  with Cons kv show ?case by simp
qed

lemma update_fields_frame:
  assumes "update_fields (r, ex) kwargs = ((r', ex'), Inr ())" and "distinct (map fst kwargs)"
  shows "(\<forall>k. k \<notin> fst ` set kwargs \<longrightarrow> getattr_Risk r' k = getattr_Risk r k)
       \<and> (\<forall>(k, v) \<in> set kwargs. k \<in> set Risk_fields \<longrightarrow>
            (\<exists>v'. coerce k v = Inr v' \<and> getattr_Risk r' k = Some v'))"
  using assms
proof (induction kwargs arbitrary: r ex)
  case Nil
  then show ?case by simp
next
  case (Cons kv kwargs)
  obtain key v where kv: "kv = (key, v)" by (cases kv)
  with Cons.prems obtain r1 ex1 where s: "update_step (r, ex) key v = Inr (r1, ex1)"
    and rest: "update_fields (r1, ex1) kwargs = ((r', ex'), Inr ())"
    by (auto split: sum.splits)
  from Cons.prems kv have d: "distinct (map fst kwargs)" and nk: "key \<notin> fst ` set kwargs"
    by auto
  note ih = Cons.IH[OF rest d]
  note st = update_step_frame[OF s]
  show ?case
  proof (intro conjI allI impI ballI)
    fix k assume "k \<notin> fst ` set (kv # kwargs)"
    then have "k \<noteq> key" "k \<notin> fst ` set kwargs" using kv by auto
    then show "getattr_Risk r' k = getattr_Risk r k" using ih st by simp
  next
    fix x assume x: "x \<in> set (kv # kwargs)"
    show "case x of (k, v) \<Rightarrow> k \<in> set Risk_fields \<longrightarrow>
            (\<exists>v'. coerce k v = Inr v' \<and> getattr_Risk r' k = Some v')"
    proof (cases "x = kv")
      case True
      have "getattr_Risk r' key = getattr_Risk r1 key" using ih nk by simp
      then show ?thesis using True kv st by auto
    next
      case False
      then have "x \<in> set kwargs" using x by simp
      then show ?thesis using ih by blast
    qed
  qed
qed

lemma update_step_extra:
  assumes "update_step (r, ex) key v = Inr (r', ex')"
  shows "ex' = (if hasattr_Risk key \<and> key \<notin> set Risk_fields then AList.update key v ex else ex)"
proof (cases "hasattr_Risk key")
  case False
  with update_step_cases[OF assms] show ?thesis by simp
next
  case True
  with update_step_cases[OF assms] obtain v' where c: "coerce key v = Inr v'"
    and m: "setattr_Risk (r, ex) key v' = Inr (r', ex')"
    by auto
  show ?thesis
  proof (cases "key \<in> set Risk_fields")
    case f: True
    from setattr_Risk_field[OF f m] f show ?thesis by simp
  next
    case f: False
    then have "coerce key v = Inr v"
      by (auto simp: coerce_def Risk_fields_def split: pyval.splits json.splits)
    with c have "v' = v" by simp
    with setattr_Risk_other[OF f m] have "setattr_other ex key v = Inr ex'" by simp
    then have "ex' = AList.update key v ex"
      by (auto simp: setattr_other_def split: if_splits pyval.splits json.splits)
    with True f show ?thesis by simp
  qed
qed

lemma update_fields_extra:
  assumes "update_fields (r, ex) kwargs = ((r', ex'), res)"
    and "\<forall>k \<in> fst ` set kwargs. hasattr_Risk k \<longrightarrow> k \<in> set Risk_fields"
  shows "ex' = ex"
  using assms
proof (induction kwargs arbitrary: r ex)
  case Nil
  then show ?case by simp
next
  case (Cons kv kwargs)
  obtain key v where kv: "kv = (key, v)" by (cases kv)
  show ?case
  proof (cases "update_step (r, ex) key v")
    case (Inl e)
    with Cons.prems kv show ?thesis by simp
  next
    case (Inr obj1)
    obtain r1 ex1 where o: "obj1 = (r1, ex1)" by (cases obj1)
    from Cons.prems(2) kv have k: "\<not> (hasattr_Risk key \<and> key \<notin> set Risk_fields)" by auto
    from update_step_extra[OF Inr[unfolded o]] k have "ex1 = ex" by simp
    moreover from Cons.prems kv Inr o
    have "update_fields (r1, ex1) kwargs = ((r', ex'), res)" by simp
    moreover from Cons.prems(2) have "\<forall>k \<in> fst ` set kwargs. hasattr_Risk k \<longrightarrow> k \<in> set Risk_fields"
      by auto
    ultimately show ?thesis using Cons.IH by blast
  qed
qed

lemma update_fields_skip:
  assumes "\<not> hasattr_Risk key"
  shows "update_fields obj (kw1 @ (key, v) # kw2) = update_fields obj (kw1 @ kw2)"
proof (induction kw1 arbitrary: obj)
  case Nil
  from assms show ?case by (simp add: update_step_def)
next
  case (Cons kv kw1)
  then show ?case by (cases kv) (simp split: sum.splits)
qed

lemma update_fields_stop:
  assumes "update_fields obj pre = (obj1, Inr ())" and "update_step obj1 key v = Inl e"
  shows "update_fields obj (pre @ (key, v) # post) = (obj1, Inl e)"
  using assms
proof (induction pre arbitrary: obj)
  case Nil
  then show ?case by simp
next
  case (Cons kv pre)
  then show ?case by (cases kv) (auto split: sum.splits)
qed

lemma coerce_fail:
  "coerce key v = Inl e \<Longrightarrow> hasattr_Risk key
     \<and> key \<in> set [''category'', ''severity'', ''likelihood'', ''status'']
     \<and> (\<exists>name s. v = PJson (JStr s) \<and> e = InvalidEnum name (JStr s))"
  unfolding coerce_def hasattr_Risk_def Risk_fields_def
    RiskCategory_call_def Severity_call_def Likelihood_call_def RiskStatus_call_def enum_call_def
  by (auto split: pyval.splits json.splits if_splits option.splits)

lemma update_other: "j \<noteq> i \<Longrightarrow> get_risk (reg\<lparr>risks := AList.update i x (risks reg)\<rparr>) j = get_risk reg j"
  by (simp add: get_risk_def update_conv')

lemma update_same: "get_risk (reg\<lparr>risks := AList.update i x (risks reg)\<rparr>) i = Some x"
  by (simp add: get_risk_def update_conv')

lemma update_keys_present:
  "has_risk reg i \<Longrightarrow> map fst (AList.update i x (risks reg)) = map fst (risks reg)"
  by (simp add: has_risk_def update_keys)


subsection \<open>Adding a risk\<close>

text \<open>
  C1. For every registry and every id already present in it, \<^verbatim>\<open>add_risk\<close> with that id
  fails with the duplicate-id error whatever the other arguments are, and the registry
  after the failed call is the registry before it; in particular the risk stored under
  that id, with its mitigation list, is the one that was there.
\<close>

theorem add_risk_duplicate:
  assumes "has_risk reg i"
  shows "add_risk reg i cat ttl descr sev lik mits own st meta = (reg, Inl (DuplicateId i))
       \<and> get_risk (fst (add_risk reg i cat ttl descr sev lik mits own st meta)) i = get_risk reg i"
  using assms by (simp add: add_risk_def)

theorem add_risk_duplicate_witness:
  "has_risk registry_12 ''RISK-001''
   \<and> add_risk registry_12 ''RISK-001'' PRIVACY ''Second Risk'' ''Second'' Severity.LOW
        Likelihood.LOW None [] IDENTIFIED None = (registry_12, Inl (DuplicateId ''RISK-001''))
   \<and> get_risk (fst (add_risk registry_12 ''RISK-001'' PRIVACY ''Second Risk'' ''Second''
        Severity.LOW Likelihood.LOW None [] IDENTIFIED None)) ''RISK-001'' = Some risk_1
   \<and> mitigations risk_1 = [''Input filtering'', ''Audit log'']"
proof -
  have h: "has_risk registry_12 ''RISK-001''"
    by (simp add: has_risk_def registry_12_def)
  have g: "get_risk registry_12 ''RISK-001'' = Some risk_1"
    by (simp add: get_risk_def registry_12_def)
  from add_risk_duplicate[OF h, of PRIVACY "''Second Risk''" "''Second''" Severity.LOW
      Likelihood.LOW None "[]" IDENTIFIED None]
  show ?thesis using h g by (simp add: risk_1_def)
qed

subsection \<open>Updating a risk\<close>

text \<open>
  What \<^verbatim>\<open>update_risk\<close> does on the calls that name fields only. (1) On an id that is not in
  the registry it fails with the not-found error and leaves the registry as it was.
  (2) On an id that is present, with keyword arguments that are valid (see
  \<^const>\<open>valid_kwarg\<close>) and have distinct names, the call returns the risk; every supplied
  field of that risk holds the supplied value (the member, for the string of an
  enumeration field), every field that was not supplied is unchanged, no other attribute
  is stored, every other risk is unchanged and the order of the registry is kept.
\<close>

lemma update_risk_frame:
  assumes "keyword_only kwargs"
  shows "(\<not> has_risk reg i \<longrightarrow> update_risk reg i kwargs = ((reg, []), Inl (NotFound i)))
   \<and> (\<forall>r. get_risk reg i = Some r \<and> list_all (\<lambda>(k, v). valid_kwarg k v) kwargs
           \<and> distinct (map fst kwargs) \<longrightarrow>
        (\<exists>r'. update_risk reg i kwargs
                 = ((reg\<lparr>risks := AList.update i r' (risks reg)\<rparr>, []), Inr r')
           \<and> (\<forall>(k, v) \<in> set kwargs. k \<in> set Risk_fields \<longrightarrow>
                 (\<exists>v'. coerce k v = Inr v' \<and> getattr_Risk r' k = Some v'))
           \<and> (\<forall>k. k \<notin> fst ` set kwargs \<longrightarrow> getattr_Risk r' k = getattr_Risk r k)
           \<and> (\<forall>j. j \<noteq> i \<longrightarrow>
                 get_risk (reg\<lparr>risks := AList.update i r' (risks reg)\<rparr>) j = get_risk reg j)
           \<and> map fst (AList.update i r' (risks reg)) = map fst (risks reg)))"
proof (intro conjI allI impI)
  assume "\<not> has_risk reg i"
  with assms show "update_risk reg i kwargs = ((reg, []), Inl (NotFound i))"
    by (simp add: has_risk_get update_risk_def keyword_only_def)
next
  fix r
  assume a: "get_risk reg i = Some r \<and> list_all (\<lambda>(k, v). valid_kwarg k v) kwargs
               \<and> distinct (map fst kwargs)"
  then obtain r' ex' where u: "update_fields (r, []) kwargs = ((r', ex'), Inr ())"
    using update_fields_ok[of kwargs "(r, [])"] by auto
  from a have "\<forall>kv \<in> set kwargs. valid_kwarg (fst kv) (snd kv)"
    by (simp add: list_all_iff split_beta)
  then have "\<forall>k \<in> fst ` set kwargs. hasattr_Risk k \<longrightarrow> k \<in> set Risk_fields"
    using valid_kwarg_field by blast
  from update_fields_extra[OF u this] have e: "ex' = []" .
  from a have h: "has_risk reg i" by (simp add: has_risk_get)
  have "update_risk reg i kwargs
          = ((reg\<lparr>risks := AList.update i r' (risks reg)\<rparr>, []), Inr r')"
    using a u e assms by (simp add: update_risk_def keyword_only_def)
  moreover note update_fields_frame[OF u] update_other update_keys_present[OF h]
  ultimately show "\<exists>r'. update_risk reg i kwargs
                 = ((reg\<lparr>risks := AList.update i r' (risks reg)\<rparr>, []), Inr r')
           \<and> (\<forall>(k, v) \<in> set kwargs. k \<in> set Risk_fields \<longrightarrow>
                 (\<exists>v'. coerce k v = Inr v' \<and> getattr_Risk r' k = Some v'))
           \<and> (\<forall>k. k \<notin> fst ` set kwargs \<longrightarrow> getattr_Risk r' k = getattr_Risk r k)
           \<and> (\<forall>j. j \<noteq> i \<longrightarrow>
                 get_risk (reg\<lparr>risks := AList.update i r' (risks reg)\<rparr>) j = get_risk reg j)
           \<and> map fst (AList.update i r' (risks reg)) = map fst (risks reg)"
    using a by blast
qed

text \<open>
  A keyword whose name is not an attribute of the risk is skipped: the call behaves as
  if it had not been given. (\<^verbatim>\<open>self\<close> is no attribute either, but names a parameter.)
\<close>

lemma update_risk_skip:
  assumes "\<not> hasattr_Risk key" and "key \<noteq> ''self''"
  shows "update_risk reg i (kw1 @ (key, v) # kw2) = update_risk reg i (kw1 @ kw2)"
proof -
  from assms(1) have "key \<noteq> ''id''" by (auto simp: hasattr_Risk_def Risk_fields_def)
  with assms(2) have "(''self'' \<in> fst ` set (kw1 @ (key, v) # kw2) \<or> ''id'' \<in> fst ` set (kw1 @ (key, v) # kw2))
      = (''self'' \<in> fst ` set (kw1 @ kw2) \<or> ''id'' \<in> fst ` set (kw1 @ kw2))"
    by auto
  moreover have "update_fields obj (kw1 @ (key, v) # kw2) = update_fields obj (kw1 @ kw2)" for obj
    using assms(1) by (rule update_fields_skip)
  ultimately show ?thesis by (simp only: update_risk_def)
qed

text \<open>A call that passes \<^verbatim>\<open>id\<close> or \<^verbatim>\<open>self\<close> as a keyword is rejected, the registry as it was.\<close>

lemma update_risk_rejects:
  "\<not> keyword_only kwargs \<Longrightarrow> update_risk reg i kwargs = ((reg, []), Inl TypeError)"
  by (auto simp: update_risk_def keyword_only_def)

text \<open>
  A keyword that names a method or an inherited attribute, other than the three that
  refuse the assignment, is stored on the risk object: the call returns the risk with its
  fields as they were and the value among the object's attributes.
\<close>

lemma update_risk_stores:
  assumes "get_risk reg i = Some r" and "hasattr_Risk key" and "key \<notin> set Risk_fields"
    and "key \<notin> set [''__class__'', ''__dict__'', ''__weakref__'']"
  shows "update_risk reg i [(key, v)]
           = ((reg\<lparr>risks := AList.update i r (risks reg)\<rparr>, [(key, v)]), Inr r)"
proof -
  from assms(3) have k: "key \<noteq> ''id''" by (auto simp: Risk_fields_def)
  from assms(2,3) have s: "key \<noteq> ''self''"
    by (auto simp: hasattr_Risk_def Risk_methods_def object_attrs_def)
  from assms(3) have "coerce key v = Inr v"
    by (auto simp: coerce_def Risk_fields_def split: pyval.splits json.splits)
  with assms(2,3,4) have "update_step (r, []) key v = Inr (r, [(key, v)])"
    by (simp add: update_step_def setattr_Risk_def setattr_other_def)
  with assms(1) k s show ?thesis by (simp add: update_risk_def)
qed

text \<open>
  C2. The claim says that a keyword whose name is not a field is ignored. The loop tests
  \<^verbatim>\<open>hasattr(risk, key)\<close>, which is true for the fields and also for the two methods and
  the inherited attributes. At \<^verbatim>\<open>update_risk("RISK-001", to_dict="x")\<close> on the registry of
  the two example risks, \<^verbatim>\<open>to_dict\<close> is not a field and the call returns the risk with
  every field as before, but the keyword is not ignored: the string is stored on the risk
  object under \<^verbatim>\<open>to_dict\<close>, and from then on \<^verbatim>\<open>risk.to_dict()\<close>, which
  \<^verbatim>\<open>export_risks_to_dict\<close> calls, raises \<^verbatim>\<open>TypeError\<close> where it returned the record before.
  At \<^verbatim>\<open>update_risk("RISK-001", __class__="x")\<close> the call itself raises \<^verbatim>\<open>TypeError\<close>. A
  name that is no attribute at all (\<^verbatim>\<open>colour\<close>) is ignored.
\<close>

theorem update_risk_non_field_attribute:
  "''to_dict'' \<notin> set Risk_fields
   \<and> update_risk registry_12 ''RISK-001'' [(''to_dict'', PJson (JStr ''x''))]
       = ((registry_12, [(''to_dict'', PJson (JStr ''x''))]), Inr risk_1)
   \<and> call_to_dict (risk_1, []) = Inr (to_dict risk_1)
   \<and> call_to_dict (risk_1, [(''to_dict'', PJson (JStr ''x''))]) = Inl TypeError
   \<and> ''__class__'' \<notin> set Risk_fields
   \<and> update_risk registry_12 ''RISK-001'' [(''__class__'', PJson (JStr ''x''))]
       = ((registry_12, []), Inl TypeError)
   \<and> update_risk registry_12 ''RISK-001'' [(''colour'', PJson (JStr ''red''))]
       = ((registry_12, []), Inr risk_1)"
proof -
  have g: "get_risk registry_12 ''RISK-001'' = Some risk_1"
    by (simp add: get_risk_def registry_12_def)
  have s: "registry_12\<lparr>risks := AList.update ''RISK-001'' risk_1 (risks registry_12)\<rparr> = registry_12"
    by (simp add: registry_12_def)
  have c: "\<And>k. k \<notin> set [''category'', ''severity'', ''likelihood'', ''status'']
             \<Longrightarrow> coerce k (PJson (JStr ''x'')) = Inr (PJson (JStr ''x''))"
    by (simp add: coerce_def)
  have 1: "update_step (risk_1, []) ''to_dict'' (PJson (JStr ''x''))
             = Inr (risk_1, [(''to_dict'', PJson (JStr ''x''))])"
    by (simp add: update_step_def hasattr_Risk_def Risk_methods_def Risk_fields_def c
        setattr_Risk_def setattr_other_def)
  have 2: "update_step (risk_1, []) ''__class__'' (PJson (JStr ''x'')) = Inl TypeError"
    by (simp add: update_step_def hasattr_Risk_def object_attrs_def Risk_fields_def c
        setattr_Risk_def setattr_other_def)
  have 3: "update_step (risk_1, []) ''colour'' (PJson (JStr ''red'')) = Inr (risk_1, [])"
    by (simp add: update_step_def hasattr_Risk_def object_attrs_def Risk_fields_def
        Risk_methods_def)
  show ?thesis
    by (simp add: update_risk_def g s 1 2 3 call_to_dict_def Risk_fields_def)
qed

text \<open>
  C10. The keyword arguments are applied one at a time in call order. In a call whose
  keywords Python binds to \<^verbatim>\<open>**kwargs\<close> (none is named \<^verbatim>\<open>id\<close> or \<^verbatim>\<open>self\<close>; another call is
  rejected before the loop), when the arguments \<open>pre\<close> have been applied, giving the risk
  \<open>r1\<close>, and the next argument carries a string that the enumeration of its field rejects,
  the call raises the invalid-enum error there: the registry then holds \<open>r1\<close> under the
  id, with the fields of \<open>pre\<close> already stored, and the arguments \<open>post\<close> are never looked
  at. The risk is not rolled back.
\<close>

theorem update_risk_partial:
  assumes "get_risk reg i = Some r"
    and "update_fields (r, []) pre = ((r1, ex1), Inr ())"
    and "distinct (map fst pre)"
    and "coerce key (PJson (JStr s)) = Inl e"
    and "keyword_only (pre @ post)"
  shows "update_risk reg i (pre @ (key, PJson (JStr s)) # post)
           = ((reg\<lparr>risks := AList.update i r1 (risks reg)\<rparr>, ex1), Inl e)
       \<and> (\<exists>name. e = InvalidEnum name (JStr s))
       \<and> key \<in> set [''category'', ''severity'', ''likelihood'', ''status'']
       \<and> get_risk (fst (fst (update_risk reg i (pre @ (key, PJson (JStr s)) # post)))) i = Some r1
       \<and> (\<forall>(k, v) \<in> set pre. k \<in> set Risk_fields \<longrightarrow>
             (\<exists>v'. coerce k v = Inr v' \<and> getattr_Risk r1 k = Some v'))
       \<and> (\<forall>k. k \<notin> fst ` set pre \<longrightarrow> getattr_Risk r1 k = getattr_Risk r k)"
proof -
  note cf = coerce_fail[OF assms(4)]
  then have "update_step (r1, ex1) key (PJson (JStr s)) = Inl e"
    using assms(4) by (simp add: update_step_def)
  from update_fields_stop[OF assms(2) this]
  have f: "update_fields (r, []) (pre @ (key, PJson (JStr s)) # post) = ((r1, ex1), Inl e)" .
  from cf have "key \<noteq> ''id''" "key \<noteq> ''self''" by auto
  with assms(5) have b: "\<not> (''self'' \<in> fst ` set (pre @ (key, PJson (JStr s)) # post)
      \<or> ''id'' \<in> fst ` set (pre @ (key, PJson (JStr s)) # post))"
    by (auto simp: keyword_only_def)
  have u: "update_risk reg i (pre @ (key, PJson (JStr s)) # post)
             = ((reg\<lparr>risks := AList.update i r1 (risks reg)\<rparr>, ex1), Inl e)"
    unfolding update_risk_def using assms(1) f b by (simp only: if_False option.case prod.case sum.case)
  moreover have "get_risk (fst (fst (update_risk reg i (pre @ (key, PJson (JStr s)) # post)))) i = Some r1"
    by (simp only: u fst_conv update_same)
  moreover note update_fields_frame[OF assms(2,3)]
  ultimately show ?thesis using cf by blast
qed

theorem update_risk_partial_witness:
  "get_risk registry_12 ''RISK-001'' = Some risk_1
   \<and> update_fields (risk_1, []) [(''title'', PJson (JStr ''New''))]
       = ((risk_1\<lparr>title := ''New''\<rparr>, []), Inr ())
   \<and> coerce ''severity'' (PJson (JStr ''bogus'')) = Inl (InvalidEnum ''Severity'' (JStr ''bogus''))
   \<and> keyword_only [(''title'', PJson (JStr ''New'')), (''owner'', PJson (JStr ''ML Team''))]
   \<and> update_risk registry_12 ''RISK-001''
        [(''title'', PJson (JStr ''New'')), (''severity'', PJson (JStr ''bogus'')),
         (''owner'', PJson (JStr ''ML Team''))]
       = ((\<lparr>risks = [(''RISK-001'', risk_1\<lparr>title := ''New''\<rparr>), (''RISK-002'', risk_2)]\<rparr>, []),
          Inl (InvalidEnum ''Severity'' (JStr ''bogus'')))
   \<and> risk_1\<lparr>title := ''New''\<rparr> \<noteq> risk_1"
proof -
  have g: "get_risk registry_12 ''RISK-001'' = Some risk_1"
    by (simp add: get_risk_def registry_12_def)
  have p: "update_fields (risk_1, []) [(''title'', PJson (JStr ''New''))]
             = ((risk_1\<lparr>title := ''New''\<rparr>, []), Inr ())"
    by (simp add: update_step_def hasattr_Risk_def Risk_fields_def coerce_def
        setattr_Risk_def setattr_field_def)
  have d: "distinct (map fst [(''title'', PJson (JStr ''New''))])" by simp
  have c: "coerce ''severity'' (PJson (JStr ''bogus''))
             = Inl (InvalidEnum ''Severity'' (JStr ''bogus''))"
    by (simp add: coerce_def Severity_call_def enum_call_def Severity_members_def)
  have k: "keyword_only ([(''title'', PJson (JStr ''New''))] @ [(''owner'', PJson (JStr ''ML Team''))])"
    by (simp add: keyword_only_def)
  have n: "risk_1\<lparr>title := ''New''\<rparr> \<noteq> risk_1"
    by (simp add: risk_1_def)
  from update_risk_partial[OF g p d c k]
  show ?thesis using g p c k n by (simp add: registry_12_def)
qed

subsection \<open>Serialization: helper lemmas\<close>

lemma enum_call_cases:
  "enum_call name members val x = Inl (InvalidEnum name x)
   \<or> (\<exists>m. enum_call name members val x = Inr m \<and> x = JStr (val m))"
  by (auto simp: enum_call_def find_Some_iff split: option.splits)

lemma enum_call_invalid:
  "x \<notin> (\<lambda>m. JStr (val m)) ` set members \<Longrightarrow> enum_call name members val x = Inl (InvalidEnum name x)"
  by (auto simp: enum_call_def find_Some_iff split: option.splits)

lemma RiskCategory_call_value [simp]: "RiskCategory_call (JStr (RiskCategory_value c)) = Inr c"
  by (cases c) (simp_all add: RiskCategory_call_def enum_call_def RiskCategory_members_def)

lemma Severity_call_value [simp]: "Severity_call (JStr (Severity_value s)) = Inr s"
  by (cases s) (simp_all add: Severity_call_def enum_call_def Severity_members_def)

lemma Likelihood_call_value [simp]: "Likelihood_call (JStr (Likelihood_value l)) = Inr l"
  by (cases l) (simp_all add: Likelihood_call_def enum_call_def Likelihood_members_def)

lemma RiskStatus_call_value [simp]: "RiskStatus_call (JStr (RiskStatus_value s)) = Inr s"
  by (cases s) (simp_all add: RiskStatus_call_def enum_call_def RiskStatus_members_def)

lemma RiskCategory_call_cases:
  "RiskCategory_call x = Inl (InvalidEnum ''RiskCategory'' x)
   \<or> (\<exists>c. RiskCategory_call x = Inr c \<and> x = JStr (RiskCategory_value c))"
  unfolding RiskCategory_call_def by (rule enum_call_cases)

lemma Severity_call_cases:
  "Severity_call x = Inl (InvalidEnum ''Severity'' x)
   \<or> (\<exists>c. Severity_call x = Inr c \<and> x = JStr (Severity_value c))"
  unfolding Severity_call_def by (rule enum_call_cases)

lemma Likelihood_call_cases:
  "Likelihood_call x = Inl (InvalidEnum ''Likelihood'' x)
   \<or> (\<exists>c. Likelihood_call x = Inr c \<and> x = JStr (Likelihood_value c))"
  unfolding Likelihood_call_def by (rule enum_call_cases)

lemma RiskStatus_call_cases:
  "RiskStatus_call x = Inl (InvalidEnum ''RiskStatus'' x)
   \<or> (\<exists>c. RiskStatus_call x = Inr c \<and> x = JStr (RiskStatus_value c))"
  unfolding RiskStatus_call_def by (rule enum_call_cases)

lemma from_dict_to_dict: "from_dict (to_dict r) = Inr r"
  by (simp add: from_dict_def to_dict_def getitem_def get_default_def and_then_def
      Risk_of_values_def as_str_list_map)

lemma update_fresh: "k \<notin> fst ` set al \<Longrightarrow> AList.update k v al = al @ [(k, v)]"
  by (induction al) auto

lemma load_records_export:
  "distinct (map fst (acc @ rs)) \<Longrightarrow> list_all (\<lambda>(k, r). k = id' r) rs \<Longrightarrow>
   load_records \<lparr>risks = acc\<rparr> (map (\<lambda>(k, r). to_dict r) rs) = (\<lparr>risks = acc @ rs\<rparr>, Inr ())"
proof (induction rs arbitrary: acc)
  case Nil
  then show ?case by simp
next
  case (Cons kr rs)
  obtain k r where kr: "kr = (k, r)" by (cases kr)
  with Cons.prems have k: "k = id' r" and fresh: "k \<notin> fst ` set acc"
    and d: "distinct (map fst ((acc @ [(k, r)]) @ rs))" and l: "list_all (\<lambda>(k, r). k = id' r) rs"
    by auto
  from Cons.IH[OF d l] show ?case
    using kr k fresh by (simp add: from_dict_to_dict update_fresh)
qed

lemma load_records_fold:
  "map from_dict docs = map Inr rs \<Longrightarrow>
   load_records reg docs = (reg\<lparr>risks := fold (\<lambda>r. AList.update (id' r) r) rs (risks reg)\<rparr>, Inr ())"
proof (induction docs arbitrary: reg rs)
  case Nil
  then show ?case by simp
next
  case (Cons d docs)
  then obtain r rs' where rs: "rs = r # rs'" and fd: "from_dict d = Inr r"
    and rest: "map from_dict docs = map Inr rs'"
    by (cases rs) auto
  from Cons.IH[OF rest] show ?case using rs fd by simp
qed

lemma map_of_fold_update:
  "map_of (fold (\<lambda>r. AList.update (id' r) r) rs al)
     = map_of al ++ map_of (rev (map (\<lambda>r. (id' r, r)) rs))"
proof (induction rs arbitrary: al)
  case Nil
  then show ?case by simp
next
  case (Cons r rs)
  show ?case
    by (rule ext) (simp add: Cons.IH update_conv' map_of_append map_add_def split: option.splits)
qed


lemma and_then_Inl:
  "and_then m f = Inl e \<Longrightarrow> m = Inl e \<or> (\<exists>x. m = Inr x \<and> f x = Inl e)"
  by (auto simp: and_then_def split: sum.splits)

lemma getitem_no_dup: "getitem data k \<noteq> Inl (DuplicateId x)"
  by (auto simp: getitem_def split: json.splits option.splits)

lemma get_default_no_dup: "get_default data k d \<noteq> Inl (DuplicateId x)"
  by (auto simp: get_default_def split: json.splits option.splits)

lemma enum_call_no_dup: "enum_call name members val v \<noteq> Inl (DuplicateId x)"
  by (auto simp: enum_call_def split: option.splits)

lemma Risk_of_values_no_dup: "Risk_of_values vi c vt vd s l vm vo st vmd \<noteq> Inl (DuplicateId x)"
  by (auto simp: Risk_of_values_def split: json.splits option.splits)

lemma from_dict_no_dup: "from_dict data \<noteq> Inl (DuplicateId x)"
proof
  assume "from_dict data = Inl (DuplicateId x)"
  then show False
    unfolding from_dict_def RiskCategory_call_def Severity_call_def Likelihood_call_def
      RiskStatus_call_def
    by (auto dest!: and_then_Inl
        simp: getitem_no_dup get_default_no_dup enum_call_no_dup Risk_of_values_no_dup)
qed

lemma load_records_no_dup: "snd (load_records reg docs) \<noteq> Inl (DuplicateId x)"
  by (induction docs arbitrary: reg) (auto simp: from_dict_no_dup split: sum.splits)

lemma py_iter_no_dup: "py_iter v \<noteq> Inl (DuplicateId x)"
  by (auto simp: py_iter_def split: json.splits)

lemma load_no_dup:
  "snd (case and_then (get_default data ''risks'' (JList [])) py_iter of
          Inl e \<Rightarrow> (reg, Inl e)
        | Inr records \<Rightarrow> load_records reg records) \<noteq> Inl (DuplicateId x)"
  by (auto split: sum.splits dest!: and_then_Inl
      simp: get_default_no_dup py_iter_no_dup load_records_no_dup)

lemma get_default_obj: "\<exists>v. get_default (JObj kvs) k d = Inr v"
  by (simp add: get_default_def split: option.splits)


subsection \<open>Deserializing a risk record\<close>

text \<open>
  C3. Take a risk record document that has the required keys \<^verbatim>\<open>id\<close>, \<^verbatim>\<open>category\<close>,
  \<^verbatim>\<open>title\<close>, \<^verbatim>\<open>description\<close>, \<^verbatim>\<open>severity\<close> and \<^verbatim>\<open>likelihood\<close>. (1) Whenever its
  category, severity, likelihood or status holds a string outside the vocabulary of that
  enumeration, \<^verbatim>\<open>Risk.from_dict\<close> fails with the invalid-enum error, raised for one of
  the four enumeration fields. (2) When the four hold strings of members (the status may
  be absent, which reads as \<^verbatim>\<open>identified\<close>) and the other fields have their annotated
  types, it succeeds and the risk carries the members whose values are those strings.
\<close>

theorem from_dict_enum_values:
  "(getitem data ''id'' = Inr vi \<and> getitem data ''category'' = Inr vc
      \<and> getitem data ''title'' = Inr vt \<and> getitem data ''description'' = Inr vd
      \<and> getitem data ''severity'' = Inr vs \<and> getitem data ''likelihood'' = Inr vl
      \<and> get_default data ''status'' (JStr ''identified'') = Inr vst
      \<and> ((\<exists>s. vc = JStr s \<and> s \<notin> range RiskCategory_value)
         \<or> (\<exists>s. vs = JStr s \<and> s \<notin> range Severity_value)
         \<or> (\<exists>s. vl = JStr s \<and> s \<notin> range Likelihood_value)
         \<or> (\<exists>s. vst = JStr s \<and> s \<notin> range RiskStatus_value))
    \<longrightarrow> (\<exists>name v. from_dict data = Inl (InvalidEnum name v)
                   \<and> (name, v) \<in> set [(''RiskCategory'', vc), (''Severity'', vs),
                                      (''Likelihood'', vl), (''RiskStatus'', vst)]))
   \<and> (getitem data ''id'' = Inr (JStr i)
      \<and> getitem data ''category'' = Inr (JStr (RiskCategory_value c))
      \<and> getitem data ''title'' = Inr (JStr t) \<and> getitem data ''description'' = Inr (JStr d)
      \<and> getitem data ''severity'' = Inr (JStr (Severity_value sv))
      \<and> getitem data ''likelihood'' = Inr (JStr (Likelihood_value l))
      \<and> get_default data ''mitigations'' (JList []) = Inr (JList (map JStr ms))
      \<and> get_default data ''owner'' (JStr []) = Inr (JStr ow)
      \<and> get_default data ''status'' (JStr ''identified'') = Inr (JStr (RiskStatus_value st))
      \<and> get_default data ''metadata'' (JObj []) = Inr (JObj md)
    \<longrightarrow> from_dict data =
          Inr \<lparr>id' = i, category = c, title = t, description = d, severity = sv,
               likelihood = l, mitigations = ms, owner = ow, status = st, metadata = md\<rparr>)"
proof (intro conjI impI)
  assume a: "getitem data ''id'' = Inr vi \<and> getitem data ''category'' = Inr vc
      \<and> getitem data ''title'' = Inr vt \<and> getitem data ''description'' = Inr vd
      \<and> getitem data ''severity'' = Inr vs \<and> getitem data ''likelihood'' = Inr vl
      \<and> get_default data ''status'' (JStr ''identified'') = Inr vst
      \<and> ((\<exists>s. vc = JStr s \<and> s \<notin> range RiskCategory_value)
         \<or> (\<exists>s. vs = JStr s \<and> s \<notin> range Severity_value)
         \<or> (\<exists>s. vl = JStr s \<and> s \<notin> range Likelihood_value)
         \<or> (\<exists>s. vst = JStr s \<and> s \<notin> range RiskStatus_value))"
  then obtain kvs where data: "data = JObj kvs"
    by (cases data) (auto simp: getitem_def)
  then obtain vm vo vmd where
    g: "get_default data ''mitigations'' (JList []) = Inr vm"
       "get_default data ''owner'' (JStr []) = Inr vo"
       "get_default data ''metadata'' (JObj []) = Inr vmd"
    using get_default_obj[of kvs "''mitigations''" "JList []"]
      get_default_obj[of kvs "''owner''" "JStr []"] get_default_obj[of kvs "''metadata''" "JObj []"]
    by auto
  have fd: "from_dict data =
     and_then (RiskCategory_call vc) (\<lambda>c. and_then (Severity_call vs) (\<lambda>s.
     and_then (Likelihood_call vl) (\<lambda>l. and_then (RiskStatus_call vst) (\<lambda>st.
       Risk_of_values vi c vt vd s l vm vo st vmd))))"
    using a g by (simp add: from_dict_def and_then_def)
  from a have bad: "(\<exists>s. vc = JStr s \<and> s \<notin> range RiskCategory_value)
         \<or> (\<exists>s. vs = JStr s \<and> s \<notin> range Severity_value)
         \<or> (\<exists>s. vl = JStr s \<and> s \<notin> range Likelihood_value)
         \<or> (\<exists>s. vst = JStr s \<and> s \<notin> range RiskStatus_value)"
    by simp
  show "\<exists>name v. from_dict data = Inl (InvalidEnum name v)
          \<and> (name, v) \<in> set [(''RiskCategory'', vc), (''Severity'', vs),
                             (''Likelihood'', vl), (''RiskStatus'', vst)]"
    using RiskCategory_call_cases[of vc] Severity_call_cases[of vs]
      Likelihood_call_cases[of vl] RiskStatus_call_cases[of vst] bad
    by (auto simp: fd and_then_def)
next
  assume "getitem data ''id'' = Inr (JStr i)
      \<and> getitem data ''category'' = Inr (JStr (RiskCategory_value c))
      \<and> getitem data ''title'' = Inr (JStr t) \<and> getitem data ''description'' = Inr (JStr d)
      \<and> getitem data ''severity'' = Inr (JStr (Severity_value sv))
      \<and> getitem data ''likelihood'' = Inr (JStr (Likelihood_value l))
      \<and> get_default data ''mitigations'' (JList []) = Inr (JList (map JStr ms))
      \<and> get_default data ''owner'' (JStr []) = Inr (JStr ow)
      \<and> get_default data ''status'' (JStr ''identified'') = Inr (JStr (RiskStatus_value st))
      \<and> get_default data ''metadata'' (JObj []) = Inr (JObj md)"
  then show "from_dict data =
          Inr \<lparr>id' = i, category = c, title = t, description = d, severity = sv,
               likelihood = l, mitigations = ms, owner = ow, status = st, metadata = md\<rparr>"
    by (simp add: from_dict_def and_then_def Risk_of_values_def as_str_list_map)
qed


theorem from_dict_enum_values_witness:
  "getitem doc_bad_severity ''severity'' = Inr (JStr ''extreme'')
   \<and> ''extreme'' \<notin> range Severity_value
   \<and> from_dict doc_bad_severity = Inl (InvalidEnum ''Severity'' (JStr ''extreme''))
   \<and> from_dict doc_bias = Inr risk_2"
proof -
  have n: "''extreme'' \<notin> range Severity_value"
  proof
    assume "''extreme'' \<in> range Severity_value"
    then obtain x where "''extreme'' = Severity_value x" by auto
    then show False by (cases x) simp_all
  qed
  have h1: "getitem doc_bad_severity ''id'' = Inr (JStr ''RISK-002'')
      \<and> getitem doc_bad_severity ''category'' = Inr (JStr ''bias'')
      \<and> getitem doc_bad_severity ''title'' = Inr (JStr ''Bias Risk'')
      \<and> getitem doc_bad_severity ''description'' = Inr (JStr ''Test bias'')
      \<and> getitem doc_bad_severity ''severity'' = Inr (JStr ''extreme'')
      \<and> getitem doc_bad_severity ''likelihood'' = Inr (JStr ''high'')
      \<and> get_default doc_bad_severity ''status'' (JStr ''identified'') = Inr (JStr ''identified'')
      \<and> ((\<exists>s. JStr ''bias'' = JStr s \<and> s \<notin> range RiskCategory_value)
         \<or> (\<exists>s. JStr ''extreme'' = JStr s \<and> s \<notin> range Severity_value)
         \<or> (\<exists>s. JStr ''high'' = JStr s \<and> s \<notin> range Likelihood_value)
         \<or> (\<exists>s. JStr ''identified'' = JStr s \<and> s \<notin> range RiskStatus_value))"
    using n by (simp add: doc_bad_severity_def getitem_def get_default_def)
  have c: "RiskCategory_call (JStr ''bias'') = Inr BIAS"
    by (simp add: RiskCategory_call_def enum_call_def RiskCategory_members_def)
  from from_dict_enum_values[THEN conjunct1, rule_format, OF h1]
  obtain name v where e: "from_dict doc_bad_severity = Inl (InvalidEnum name v)"
    and m: "(name, v) \<in> set [(''RiskCategory'', JStr ''bias''), (''Severity'', JStr ''extreme''),
                              (''Likelihood'', JStr ''high''), (''RiskStatus'', JStr ''identified'')]"
    by blast
  have e2: "from_dict doc_bad_severity = Inl (InvalidEnum ''Severity'' (JStr ''extreme''))"
    by (simp add: from_dict_def doc_bad_severity_def getitem_def and_then_def c
        Severity_call_def enum_call_def Severity_members_def)
  have h2: "getitem doc_bias ''id'' = Inr (JStr ''RISK-002'')
      \<and> getitem doc_bias ''category'' = Inr (JStr (RiskCategory_value BIAS))
      \<and> getitem doc_bias ''title'' = Inr (JStr ''Bias Risk'')
      \<and> getitem doc_bias ''description'' = Inr (JStr ''Test bias'')
      \<and> getitem doc_bias ''severity'' = Inr (JStr (Severity_value Severity.MEDIUM))
      \<and> getitem doc_bias ''likelihood'' = Inr (JStr (Likelihood_value Likelihood.HIGH))
      \<and> get_default doc_bias ''mitigations'' (JList []) = Inr (JList (map JStr []))
      \<and> get_default doc_bias ''owner'' (JStr []) = Inr (JStr [])
      \<and> get_default doc_bias ''status'' (JStr ''identified'') = Inr (JStr (RiskStatus_value IDENTIFIED))
      \<and> get_default doc_bias ''metadata'' (JObj []) = Inr (JObj [])"
    by (simp add: doc_bias_def getitem_def get_default_def)
  from from_dict_enum_values[THEN conjunct2, rule_format, OF h2]
  have g: "from_dict doc_bias = Inr risk_2" by (simp add: risk_2_def)
  from h1 have s: "getitem doc_bad_severity ''severity'' = Inr (JStr ''extreme'')" by simp
  from s n e e2 g show ?thesis by simp
qed


subsection \<open>The registry keeps every risk under its id\<close>

text \<open>
  The empty registry satisfies \<^const>\<open>keyed_by_id\<close>, and \<^verbatim>\<open>add_risk\<close>, the load
  operations and \<^verbatim>\<open>update_risk\<close> keep it, whether they return or raise.
\<close>

lemma keyed_by_id_init: "keyed_by_id RiskRegistry_init"
  by (simp add: keyed_by_id_def RiskRegistry_init_def)

lemma list_all_update:
  "list_all P al \<Longrightarrow> P (k, v) \<Longrightarrow> list_all P (AList.update k v al)"
  by (induction al) auto

lemma keyed_update:
  assumes "distinct (map fst al)" and "list_all (\<lambda>(k, risk). k = id' risk) al" and "id' x = i"
  shows "distinct (map fst (AList.update i x al))
       \<and> list_all (\<lambda>(k, risk). k = id' risk) (AList.update i x al)"
  using assms by (simp add: distinct_update list_all_update)

lemma keyed_by_id_store:
  "keyed_by_id reg \<Longrightarrow> id' x = i \<Longrightarrow> keyed_by_id (reg\<lparr>risks := AList.update i x (risks reg)\<rparr>)"
  using keyed_update[of "risks reg" x i] by (simp add: keyed_by_id_def)

lemma keyed_by_id_add_risk:
  "keyed_by_id reg \<Longrightarrow> keyed_by_id (fst (add_risk reg i cat ttl descr sev lik mits own st meta))"
  by (simp add: add_risk_def Let_def keyed_by_id_store)

lemma keyed_by_id_load_records:
  "keyed_by_id reg \<Longrightarrow> keyed_by_id (fst (load_records reg docs))"
  by (induction docs arbitrary: reg) (auto simp: keyed_by_id_store split: sum.splits)

lemma keyed_by_id_load:
  "keyed_by_id reg \<Longrightarrow> keyed_by_id (fst (load_from_json reg data))"
  by (auto simp: load_from_json_def keyed_by_id_load_records split: sum.splits)

lemma update_step_id:
  assumes "update_step (r, ex) key v = Inr (r', ex')" and "key \<noteq> ''id''"
  shows "id' r' = id' r"
proof -
  from assms(2) have "''id'' \<noteq> key" by simp
  from update_step_frame[OF assms(1), THEN conjunct1, rule_format, OF this]
  have "getattr_Risk r' ''id'' = getattr_Risk r ''id''" .
  then show ?thesis by (simp add: getattr_Risk_def)
qed

lemma update_fields_id:
  "''id'' \<notin> fst ` set kwargs \<Longrightarrow> id' (fst (fst (update_fields (r, ex) kwargs))) = id' r"
proof (induction kwargs arbitrary: r ex)
  case Nil
  then show ?case by simp
next
  case (Cons kv kwargs)
  obtain key v where kv: "kv = (key, v)" by (cases kv)
  with Cons.prems have k: "key \<noteq> ''id''" and rest: "''id'' \<notin> fst ` set kwargs" by auto
  show ?case
  proof (cases "update_step (r, ex) key v")
    case (Inl e)
    with kv show ?thesis by simp
  next
    case (Inr obj1)
    obtain r1 ex1 where o: "obj1 = (r1, ex1)" by (cases obj1)
    with kv Inr Cons.IH[OF rest, of r1 ex1] update_step_id[OF Inr[unfolded o] k]
    show ?thesis by simp
  qed
qed

lemma keyed_by_id_update_risk:
  assumes "keyed_by_id reg"
  shows "keyed_by_id (fst (fst (update_risk reg i kwargs)))"
proof (cases "''self'' \<in> fst ` set kwargs \<or> ''id'' \<in> fst ` set kwargs")
  case True
  with assms show ?thesis by (simp add: update_risk_def)
next
  case False
  then have nid: "''id'' \<notin> fst ` set kwargs" by simp
  show ?thesis
  proof (cases "get_risk reg i")
    case None
    with assms False show ?thesis by (simp add: update_risk_def)
  next
    case (Some r)
    then have "(i, r) \<in> set (risks reg)" by (simp add: get_risk_def map_of_SomeD)
    with assms have "id' r = i"
      by (auto simp: keyed_by_id_def list_all_iff)
    with update_fields_id[OF nid, of r "[]"]
    have "id' (fst (fst (update_fields (r, []) kwargs))) = i" by simp
    with Some assms False show ?thesis
      by (simp add: update_risk_def split_beta keyed_by_id_store)
  qed
qed

subsection \<open>Persist and load\<close>

text \<open>
  C4. For every registry that keeps each risk under its own id, exporting every risk
  (\<^verbatim>\<open>to_json\<close>, \<^verbatim>\<open>to_yaml\<close>) and loading the document into a fresh registry gives the
  registry back: the same risks, every field equal, in the same order. Each risk is
  reproduced by \<^verbatim>\<open>from_dict\<close> from its \<^verbatim>\<open>to_dict\<close>.
\<close>

theorem persist_load_roundtrip:
  assumes "keyed_by_id reg"
  shows "load_from_json RiskRegistry_init (to_json reg) = (reg, Inr ())
       \<and> load_from_yaml RiskRegistry_init (to_json reg) = (reg, Inr ())
       \<and> list_all (\<lambda>(k, r). from_dict (to_dict r) = Inr r) (risks reg)"
proof -
  from assms have "load_records \<lparr>risks = []\<rparr> (map (\<lambda>(k, r). to_dict r) (risks reg))
                     = (\<lparr>risks = [] @ risks reg\<rparr>, Inr ())"
    by (intro load_records_export) (simp_all add: keyed_by_id_def)
  then show ?thesis
    by (simp add: load_from_json_def load_from_yaml_def to_json_def export_risks_to_dict_def
        get_default_def and_then_def py_iter_def RiskRegistry_init_def from_dict_to_dict
        list_all_iff split_beta)
qed


theorem persist_load_roundtrip_witness:
  "keyed_by_id registry_12
   \<and> load_from_json RiskRegistry_init (to_json registry_12) = (registry_12, Inr ())
   \<and> mitigations risk_1 = [''Input filtering'', ''Audit log'']
   \<and> get_risk (fst (load_from_json RiskRegistry_init (to_json registry_12))) ''RISK-001'' = Some risk_1"
proof -
  have k: "keyed_by_id registry_12"
    by (simp add: keyed_by_id_def registry_12_def risk_1_def risk_2_def)
  from persist_load_roundtrip[OF k] show ?thesis
    using k by (simp add: get_risk_def registry_12_def risk_1_def)
qed


text \<open>
  C5. (1) Loading never fails with the duplicate-id error, whatever the registry and the
  document are. (2) For a document whose records all deserialize, the load succeeds, each
  record is stored under its id in document order, and afterwards an id holds the last
  record of the document with that id, or what the registry held when the document has
  none. (3) A record whose id is already in the registry overwrites the stored risk, where
  \<^verbatim>\<open>add_risk\<close> with the same id and fields fails.
\<close>

theorem load_merges_last_write_wins:
  "(\<forall>x. snd (load_from_json reg data) \<noteq> Inl (DuplicateId x)
        \<and> snd (load_from_yaml reg data) \<noteq> Inl (DuplicateId x))
   \<and> (get_default data ''risks'' (JList []) = Inr (JList docs) \<and> map from_dict docs = map Inr rs
       \<longrightarrow> load_from_json reg data
             = (reg\<lparr>risks := fold (\<lambda>r. AList.update (id' r) r) rs (risks reg)\<rparr>, Inr ())
         \<and> load_from_yaml reg data = load_from_json reg data
         \<and> (\<forall>k. get_risk (fst (load_from_json reg data)) k
                 = (case map_of (rev (map (\<lambda>r. (id' r, r)) rs)) k of
                      Some r \<Rightarrow> Some r
                    | None \<Rightarrow> get_risk reg k)))
   \<and> (has_risk reg i \<and> from_dict d = Inr risk \<and> id' risk = i
       \<longrightarrow> load_from_json reg (JObj [(''risks'', JList [d])])
             = (reg\<lparr>risks := AList.update i risk (risks reg)\<rparr>, Inr ())
         \<and> get_risk (fst (load_from_json reg (JObj [(''risks'', JList [d])]))) i = Some risk
         \<and> snd (add_risk reg i (category risk) (title risk) (description risk) (severity risk)
                  (likelihood risk) (Some (mitigations risk)) (owner risk) (status risk)
                  (Some (metadata risk))) = Inl (DuplicateId i))"
proof (intro conjI allI impI)
  fix x
  show "snd (load_from_json reg data) \<noteq> Inl (DuplicateId x)"
    unfolding load_from_json_def by (rule load_no_dup)
  show "snd (load_from_yaml reg data) \<noteq> Inl (DuplicateId x)"
    unfolding load_from_yaml_def by (rule load_no_dup)
next
  assume a: "get_default data ''risks'' (JList []) = Inr (JList docs) \<and> map from_dict docs = map Inr rs"
  then have l: "load_records reg docs
                  = (reg\<lparr>risks := fold (\<lambda>r. AList.update (id' r) r) rs (risks reg)\<rparr>, Inr ())"
    by (simp add: load_records_fold)
  with a show j: "load_from_json reg data
             = (reg\<lparr>risks := fold (\<lambda>r. AList.update (id' r) r) rs (risks reg)\<rparr>, Inr ())"
    by (simp add: load_from_json_def and_then_def py_iter_def)
  show "load_from_yaml reg data = load_from_json reg data"
    by (simp add: load_from_json_def load_from_yaml_def)
  fix k
  show "get_risk (fst (load_from_json reg data)) k
                 = (case map_of (rev (map (\<lambda>r. (id' r, r)) rs)) k of
                      Some r \<Rightarrow> Some r
                    | None \<Rightarrow> get_risk reg k)"
    by (simp add: j get_risk_def map_of_fold_update map_add_def split: option.splits)
next
  assume a: "has_risk reg i \<and> from_dict d = Inr risk \<and> id' risk = i"
  then show j: "load_from_json reg (JObj [(''risks'', JList [d])])
             = (reg\<lparr>risks := AList.update i risk (risks reg)\<rparr>, Inr ())"
    by (simp add: load_from_json_def and_then_def py_iter_def get_default_def)
  show "get_risk (fst (load_from_json reg (JObj [(''risks'', JList [d])]))) i = Some risk"
    by (simp add: j get_risk_def update_conv')
  from a show "snd (add_risk reg i (category risk) (title risk) (description risk) (severity risk)
                  (likelihood risk) (Some (mitigations risk)) (owner risk) (status risk)
                  (Some (metadata risk))) = Inl (DuplicateId i)"
    by (simp add: add_risk_def)
qed

theorem load_merges_last_write_wins_witness:
  "has_risk registry_12 ''RISK-001''
   \<and> map from_dict [to_dict risk_1_revised, to_dict risk_3] = map Inr [risk_1_revised, risk_3]
   \<and> load_from_json registry_12 (JObj [(''risks'', JList [to_dict risk_1_revised, to_dict risk_3])])
       = (\<lparr>risks = [(''RISK-001'', risk_1_revised), (''RISK-002'', risk_2), (''RISK-003'', risk_3)]\<rparr>,
          Inr ())
   \<and> load_from_json registry_12 (JObj [(''risks'', JList [to_dict risk_1_revised])])
       = (\<lparr>risks = [(''RISK-001'', risk_1_revised), (''RISK-002'', risk_2)]\<rparr>, Inr ())
   \<and> snd (add_risk registry_12 ''RISK-001'' SECURITY ''Prompt injection (revised)'' ''Reassessed''
            Severity.HIGH Likelihood.LOW (Some [''Input filtering'']) ''Platform Team'' MONITORING
            (Some [])) = Inl (DuplicateId ''RISK-001'')"
proof -
  let ?data = "JObj [(''risks'', JList [to_dict risk_1_revised, to_dict risk_3])]"
  have h: "has_risk registry_12 ''RISK-001''"
    by (simp add: has_risk_def registry_12_def)
  have m: "map from_dict [to_dict risk_1_revised, to_dict risk_3] = map Inr [risk_1_revised, risk_3]"
    by (simp add: from_dict_to_dict)
  have g: "get_default ?data ''risks'' (JList []) = Inr (JList [to_dict risk_1_revised, to_dict risk_3])"
    by (simp add: get_default_def)
  have i1: "id' risk_1_revised = ''RISK-001''" by (simp add: risk_1_revised_def)
  have i3: "id' risk_3 = ''RISK-003''" by (simp add: risk_3_def)
  from load_merges_last_write_wins[where reg=registry_12 and data="?data", THEN conjunct2, THEN conjunct1,
      rule_format, OF conjI[OF g m]]
  have a: "load_from_json registry_12 ?data
       = (\<lparr>risks = [(''RISK-001'', risk_1_revised), (''RISK-002'', risk_2), (''RISK-003'', risk_3)]\<rparr>,
          Inr ())"
    by (simp add: registry_12_def i1 i3)
  from load_merges_last_write_wins[where reg=registry_12 and i="''RISK-001''"
      and d="to_dict risk_1_revised" and risk=risk_1_revised, THEN conjunct2, THEN conjunct2, rule_format,
      OF conjI[OF h conjI[OF from_dict_to_dict i1]]]
  have b: "load_from_json registry_12 (JObj [(''risks'', JList [to_dict risk_1_revised])])
       = (\<lparr>risks = [(''RISK-001'', risk_1_revised), (''RISK-002'', risk_2)]\<rparr>, Inr ())"
    and c: "snd (add_risk registry_12 ''RISK-001'' SECURITY ''Prompt injection (revised)'' ''Reassessed''
            Severity.HIGH Likelihood.LOW (Some [''Input filtering'']) ''Platform Team'' MONITORING
            (Some [])) = Inl (DuplicateId ''RISK-001'')"
    by (simp_all add: registry_12_def risk_1_revised_def)
  from h m a b c show ?thesis by simp
qed

subsection \<open>The policy checker\<close>

lemma missing_empty_policy [simp]: "missing_or_empty [] sect"
  by (simp add: missing_or_empty_def)

lemma policy_get_empty [simp]: "policy_get [] key = JNull"
  by (simp add: policy_get_def)

lemma reset_issues: "c\<lparr>issues := []\<rparr> = PolicyChecker_init"
  by (cases c) (simp add: PolicyChecker_init_def)


text \<open>
  C6. Checking the empty policy \<^verbatim>\<open>{}\<close> does not raise, from any checker state. The
  returned list is the six required-section errors, one for each of \<^verbatim>\<open>scope\<close>,
  \<^verbatim>\<open>responsibilities\<close>, \<^verbatim>\<open>data_handling\<close>, \<^verbatim>\<open>incident_response\<close>, \<^verbatim>\<open>monitoring\<close>
  and \<^verbatim>\<open>escalation\<close> in this order, followed by the six recommended-section warnings
  and nothing else: no per-section field check adds an issue, so the issues of severity
  \<^verbatim>\<open>error\<close> are exactly those six.
\<close>

theorem check_empty_policy:
  "\<exists>iss. check_policy c [] = (\<lparr>issues = iss\<rparr>, Inr iss)
     \<and> iss = map (\<lambda>s. \<lparr>severity' = ''error'', section' = s,
                        message = ''Required section '' @ quoted s @ '' is missing or empty''\<rparr>)
                REQUIRED_SECTIONS
            @ map (\<lambda>s. \<lparr>severity' = ''warning'', section' = s,
                         message = ''Recommended section '' @ quoted s @ '' is missing''\<rparr>)
                RECOMMENDED_SECTIONS
     \<and> with_severity ''error'' iss
         = map (\<lambda>s. \<lparr>severity' = ''error'', section' = s,
                       message = ''Required section '' @ quoted s @ '' is missing or empty''\<rparr>)
               REQUIRED_SECTIONS
     \<and> map section' (with_severity ''error'' iss)
         = [''scope'', ''responsibilities'', ''data_handling'', ''incident_response'',
            ''monitoring'', ''escalation'']"
  by (simp add: check_policy_def reset_issues PolicyChecker_init_def check_required_sections_def
      check_recommended_sections_def REQUIRED_SECTIONS_def RECOMMENDED_SECTIONS_def
      append_issue_def check_scope_def check_responsibilities_def check_data_handling_def
      check_incident_response_def check_monitoring_def with_severity_def)


theorem check_empty_policy_witness:
  "\<exists>iss. check_policy used_checker [] = (\<lparr>issues = iss\<rparr>, Inr iss)
     \<and> length iss = 12
     \<and> map section' (with_severity ''error'' iss)
         = [''scope'', ''responsibilities'', ''data_handling'', ''incident_response'',
            ''monitoring'', ''escalation'']"
proof -
  from check_empty_policy[of used_checker] obtain iss where
    "check_policy used_checker [] = (\<lparr>issues = iss\<rparr>, Inr iss)"
    and "iss = map (\<lambda>s. \<lparr>severity' = ''error'', section' = s,
                        message = ''Required section '' @ quoted s @ '' is missing or empty''\<rparr>)
                REQUIRED_SECTIONS
            @ map (\<lambda>s. \<lparr>severity' = ''warning'', section' = s,
                         message = ''Recommended section '' @ quoted s @ '' is missing''\<rparr>)
                RECOMMENDED_SECTIONS"
    and "map section' (with_severity ''error'' iss)
         = [''scope'', ''responsibilities'', ''data_handling'', ''incident_response'',
            ''monitoring'', ''escalation'']"
    by (elim exE conjE)
  then show ?thesis
    by (intro exI[of _ iss]) (simp add: REQUIRED_SECTIONS_def RECOMMENDED_SECTIONS_def)
qed

text \<open>
  C7. For every policy document and every checker state, \<^verbatim>\<open>check_policy\<close> gives what a
  freshly constructed checker gives on that document: the same returned list (or the
  same exception) and the same checker afterwards. In particular a checker that has just
  checked another document gives the same as a fresh one; nothing accumulates.
\<close>

theorem check_policy_pure:
  "check_policy c policy = check_policy PolicyChecker_init policy
   \<and> check_policy (fst (check_policy c other)) policy = check_policy PolicyChecker_init policy"
proof -
  have fresh: "check_policy c' policy = check_policy PolicyChecker_init policy" for c'
    unfolding check_policy_def by (simp only: reset_issues)
  from fresh[of c] fresh[of "fst (check_policy c other)"] show ?thesis
    by (rule conjI)
qed

theorem check_policy_pure_witness:
  "issues used_checker \<noteq> []
   \<and> check_policy used_checker policy_scope_only = check_policy PolicyChecker_init policy_scope_only
   \<and> check_policy (fst (check_policy used_checker [])) policy_scope_only
       = check_policy PolicyChecker_init policy_scope_only
   \<and> (\<exists>iss. snd (check_policy used_checker policy_scope_only) = Inr iss \<and> length iss = 13)"
proof -
  have n: "issues used_checker \<noteq> []" by (simp add: used_checker_def)
  have e: "\<exists>iss. snd (check_policy PolicyChecker_init policy_scope_only) = Inr iss \<and> length iss = 13"
    by (simp add: check_policy_def policy_scope_only_def PolicyChecker_init_def
        check_required_sections_def check_recommended_sections_def REQUIRED_SECTIONS_def
        RECOMMENDED_SECTIONS_def missing_or_empty_def policy_get_def append_issue_def
        check_scope_def check_responsibilities_def check_data_handling_def
        check_incident_response_def check_monitoring_def check_field_def py_in_def)
  from check_policy_pure[of used_checker policy_scope_only "[]"] n e
  show ?thesis by simp
qed

subsection \<open>Uncertainty tags\<close>

lemma str_replace_absent:
  "old \<noteq> [] \<Longrightarrow> \<not> sublist old s \<Longrightarrow> str_replace old new s = s"
proof (induction s)
  case Nil
  then show ?case by simp
next
  case (Cons c cs)
  then have "\<not> prefix old (c # cs)" "\<not> sublist old cs"
    by (auto simp: sublist_Cons_right)
  with Cons show ?case by simp
qed

lemma str_replace_prefix:
  "old \<noteq> [] \<Longrightarrow> str_replace old new (old @ rest) = new @ str_replace old new rest"
  by (cases old) simp_all

lemma isspace_space [simp]: "isspace CHR '' ''"
  by (simp add: isspace_def)

lemma strip_space [simp]: "strip (CHR '' '' # s) = strip s"
  by (simp add: strip_def)

lemma strip_collapse_dropWhile:
  "strip (collapse_ws (dropWhile isspace s)) = strip (collapse_ws s)"
proof (cases s)
  case Nil
  then show ?thesis by simp
next
  case (Cons c cs)
  then show ?thesis by simp
qed

lemma not_sublist_after_space:
  assumes "\<not> sublist tag text" and "hd tag \<noteq> CHR '' ''" and "tag \<noteq> []"
  shows "\<not> sublist tag (CHR '' '' # text)"
proof -
  from assms(2,3) have "\<not> prefix tag (CHR '' '' # text)"
    by (cases tag) auto
  with assms(1) show ?thesis by (simp add: sublist_Cons_right)
qed


text \<open>
  C8 (amended). For every text that contains none of the five markers,
  \<^verbatim>\<open>strip_tags(tag_fact(text))\<close> is the text with every run of whitespace, also inside the
  text, collapsed to one space and the whitespace at both ends removed; it is what
  \<^verbatim>\<open>strip_tags(text)\<close> gives.
\<close>

theorem strip_tags_tag_fact:
  assumes "\<forall>tag \<in> set ALL_TAGS. \<not> sublist tag text"
  shows "strip_tags (tag_fact text) = strip (collapse_ws text)
       \<and> strip_tags (tag_fact text) = strip_tags text"
proof -
  let ?t = "CHR '' '' # text"
  have a: "\<not> sublist tag ?t" if "tag \<in> set ALL_TAGS" for tag
    using that assms
    by (intro not_sublist_after_space)
       (auto simp: ALL_TAGS_def TAG_FACT_def TAG_ESTIMATE_def TAG_UNKNOWN_def
          TAG_ASSUMPTION_def TAG_SPECULATION_def)
  have ne: "tag \<noteq> []" if "tag \<in> set ALL_TAGS" for tag
    using that
    by (auto simp: ALL_TAGS_def TAG_FACT_def TAG_ESTIMATE_def TAG_UNKNOWN_def
          TAG_ASSUMPTION_def TAG_SPECULATION_def)
  have keep: "fold (\<lambda>tag result. str_replace tag [] result) tags s = s"
    if "\<forall>tag \<in> set tags. tag \<noteq> [] \<and> \<not> sublist tag s" for tags s
    using that by (induction tags) (simp_all add: str_replace_absent)
  have f: "TAG_FACT \<in> set ALL_TAGS" by (simp add: ALL_TAGS_def)
  have "str_replace TAG_FACT [] (TAG_FACT @ ?t) = [] @ str_replace TAG_FACT [] ?t"
    using ne[OF f] by (rule str_replace_prefix)
  moreover have "str_replace TAG_FACT [] ?t = ?t"
    using ne[OF f] a[OF f] by (rule str_replace_absent)
  moreover have "tag_fact text = TAG_FACT @ ?t"
    by (simp add: tag_fact_def)
  ultimately have "str_replace TAG_FACT [] (tag_fact text) = ?t"
    by simp
  then have "fold (\<lambda>tag result. str_replace tag [] result) ALL_TAGS (tag_fact text)
               = fold (\<lambda>tag result. str_replace tag [] result)
                   [TAG_ESTIMATE, TAG_UNKNOWN, TAG_ASSUMPTION, TAG_SPECULATION] ?t"
    by (simp add: ALL_TAGS_def)
  also have "\<dots> = ?t"
    using a ne by (intro keep) (simp add: ALL_TAGS_def)
  finally have 1: "strip_tags (tag_fact text) = strip (collapse_ws text)"
    using strip_collapse_dropWhile[of "text"] by (simp add: strip_tags_def)
  have "fold (\<lambda>tag result. str_replace tag [] result) ALL_TAGS text = text"
    using assms ne by (intro keep) simp
  then have 2: "strip_tags text = strip (collapse_ws text)"
    by (simp add: strip_tags_def)
  from 1 2 show ?thesis by simp
qed


theorem strip_tags_tag_fact_witness:
  "\<not> sublist TAG_FACT ''The  earth is round ''
   \<and> \<not> sublist TAG_ESTIMATE ''The  earth is round ''
   \<and> \<not> sublist TAG_UNKNOWN ''The  earth is round ''
   \<and> \<not> sublist TAG_ASSUMPTION ''The  earth is round ''
   \<and> \<not> sublist TAG_SPECULATION ''The  earth is round ''
   \<and> strip_tags (tag_fact ''The  earth is round '') = ''The earth is round''"
proof -
  have h: "\<not> sublist TAG_FACT ''The  earth is round ''
      \<and> \<not> sublist TAG_ESTIMATE ''The  earth is round ''
      \<and> \<not> sublist TAG_UNKNOWN ''The  earth is round ''
      \<and> \<not> sublist TAG_ASSUMPTION ''The  earth is round ''
      \<and> \<not> sublist TAG_SPECULATION ''The  earth is round ''"
    by (simp add: TAG_FACT_def TAG_ESTIMATE_def TAG_UNKNOWN_def
        TAG_ASSUMPTION_def TAG_SPECULATION_def sublist_Cons_right)
  then have a: "\<forall>tag \<in> set ALL_TAGS. \<not> sublist tag ''The  earth is round ''"
    by (simp add: ALL_TAGS_def)
  have n: "strip (collapse_ws ''The  earth is round '') = ''The earth is round''"
    by (simp add: strip_def isspace_def)
  from strip_tags_tag_fact[OF a] h n show ?thesis by simp
qed

text \<open>
  C8 as stated fails. With two spaces inside the text the result differs from the text
  even after the whitespace around both is removed; and a text that contains a marker
  loses it, so the result differs from the text under any whitespace normalization.
\<close>

theorem strip_tags_tag_fact_counterexample:
  "strip (strip_tags (tag_fact ''a  b'')) \<noteq> strip ''a  b''
   \<and> strip (collapse_ws (strip_tags (tag_fact ''[ESTIMATE] x'')))
       \<noteq> strip (collapse_ws ''[ESTIMATE] x'')"
  by (simp add: strip_tags_def tag_fact_def ALL_TAGS_def TAG_FACT_def TAG_ESTIMATE_def
      TAG_UNKNOWN_def TAG_ASSUMPTION_def TAG_SPECULATION_def strip_def isspace_def)

subsection \<open>The report builder\<close>

lemma not_header [simp]:
  "\<not> is_section_header (CHR ''-'' # s)"
  "\<not> is_section_header (CHR ''*'' # s)"
  "\<not> is_section_header (CHR ''|'' # s)"
  "\<not> is_section_header (CHR ''T'' # s)"
  "\<not> is_section_header []"
  "\<not> is_section_header (CHR ''#'' # CHR ''#'' # CHR ''#'' # s)"
  "\<not> is_section_header (CHR ''#'' # CHR '' '' # s)"
  by (simp_all add: is_section_header_def)












end
